theory Spec2Isabelle
  imports Main
begin

section \<open>JavaScript values\<close>

text \<open>
  The Jira tool server is TypeScript; most of the data it handles is typed \<open>unknown\<close> or
  \<open>any\<close> (parsed response bodies), so the model works on JavaScript values. Strings are
  byte strings (\<open>char list\<close>), numbers are the integers among the JavaScript numbers
  (printed in decimal, as JavaScript prints them below \<open>10^21\<close>), and an object is the list
  of its own properties in enumeration order, with distinct keys.
\<close>

datatype js =
    JUndefined
  | JNull
  | JBool bool
  | JNum int
  | JStr string
  | JArr "js list"
  | JObj "(string \<times> js) list"

text \<open>Truthiness, as \<open>if (v)\<close>, \<open>!v\<close> and \<open>v || d\<close> test it.\<close>

fun truthy :: "js \<Rightarrow> bool" where
  "truthy JUndefined = False"
| "truthy JNull = False"
| "truthy (JBool b) = b"
| "truthy (JNum n) = (n \<noteq> 0)"
| "truthy (JStr s) = (s \<noteq> [])"
| "truthy (JArr xs) = True"
| "truthy (JObj kvs) = True"

text \<open>\<open>a || b\<close>\<close>

definition or_else :: "js \<Rightarrow> js \<Rightarrow> js" where
  "or_else a b = (if truthy a then a else b)"

text \<open>\<open>typeof v === 'object'\<close>: objects, arrays and \<open>null\<close>.\<close>

fun typeof_object :: "js \<Rightarrow> bool" where
  "typeof_object JNull = True"
| "typeof_object (JArr xs) = True"
| "typeof_object (JObj kvs) = True"
| "typeof_object v = False"

text \<open>
  \<open>v.k\<close> on a value that is neither \<open>undefined\<close> nor \<open>null\<close>, for a key \<open>k\<close> that no
  prototype defines (every key read this way in the source is such a key: \<open>errorMessages\<close>,
  \<open>errors\<close>, \<open>message\<close>, \<open>resetAt\<close>, \<open>fields\<close>, \<open>labels\<close>, \<open>name\<close>, ...). A missing
  property reads as \<open>undefined\<close>.
\<close>

fun member :: "js \<Rightarrow> string \<Rightarrow> js" where
  "member (JObj kvs) k = (case map_of kvs k of Some v \<Rightarrow> v | None \<Rightarrow> JUndefined)"
| "member v k = JUndefined"

subsection \<open>Conversion to string\<close>

definition digit_char :: "nat \<Rightarrow> char" where
  "digit_char d = char_of (48 + d)"

function show_nat :: "nat \<Rightarrow> string" where
  "show_nat n = (if n < 10 then [digit_char n] else show_nat (n div 10) @ [digit_char (n mod 10)])"
  by pat_completeness auto
termination
  by (relation "measure id") auto

declare show_nat.simps [simp del]

definition show_int :: "int \<Rightarrow> string" where
  "show_int i = (if i < 0 then CHR ''-'' # show_nat (nat (- i)) else show_nat (nat i))"

text \<open>\<open>xs.join(sep)\<close> on strings.\<close>

fun join :: "string \<Rightarrow> string list \<Rightarrow> string" where
  "join sep [] = []"
| "join sep [x] = x"
| "join sep (x # y # ys) = x @ sep @ join sep (y # ys)"

text \<open>
  \<open>String(v)\<close>, which a template literal and the \<open>Error\<close> constructor apply. An array
  prints its elements separated by commas, \<open>undefined\<close> and \<open>null\<close> elements as the empty
  string; an object prints as \<open>[object Object]\<close>.
\<close>

fun js_to_string :: "js \<Rightarrow> string" where
  "js_to_string JUndefined = ''undefined''"
| "js_to_string JNull = ''null''"
| "js_to_string (JBool b) = (if b then ''true'' else ''false'')"
| "js_to_string (JNum n) = show_int n"
| "js_to_string (JStr s) = s"
| "js_to_string (JArr xs) =
     join '','' (map (\<lambda>x. if x = JUndefined \<or> x = JNull then [] else js_to_string x) xs)"
| "js_to_string (JObj kvs) = ''[object Object]''"

text \<open>The string an element contributes to \<open>Array.prototype.join\<close>.\<close>

definition join_element :: "js \<Rightarrow> string" where
  "join_element x = (if x = JUndefined \<or> x = JNull then [] else js_to_string x)"

subsection \<open>Errors\<close>

text \<open>
  The classes of \<open>common/errors.ts\<close>, and the built-in errors the code can raise. A thrown
  value is always an \<open>Error\<close> object; the fields \<open>status\<close> and \<open>response\<close> exist on the
  \<open>JiraError\<close> classes only.
\<close>

datatype error_kind =
    Error
  | TypeError
  | RangeError
  | JiraError
  | JiraValidationError
  | JiraResourceNotFoundError
  | JiraAuthenticationError
  | JiraPermissionError
  | JiraRateLimitError
  | JiraConflictError

record js_error =
  kind :: error_kind
  message :: string
  status :: "nat option"
  response :: js

definition new_Error :: "string \<Rightarrow> js_error" where
  "new_Error msg = \<lparr>kind = Error, message = msg, status = None, response = JUndefined\<rparr>"

text \<open>
  The message of a built-in \<open>TypeError\<close> or \<open>RangeError\<close> is the engine's; the model gives
  a text in the manner of V8. No property below depends on it.
\<close>

definition new_TypeError :: "string \<Rightarrow> js_error" where
  "new_TypeError msg = \<lparr>kind = TypeError, message = msg, status = None, response = JUndefined\<rparr>"

definition new_RangeError :: "string \<Rightarrow> js_error" where
  "new_RangeError msg = \<lparr>kind = RangeError, message = msg, status = None, response = JUndefined\<rparr>"

text \<open>\<open>isJiraError\<close>: \<open>error instanceof JiraError\<close>.\<close>

fun isJiraError :: "js_error \<Rightarrow> bool" where
  "isJiraError e = (kind e \<notin> {Error, TypeError, RangeError})"

section \<open>The host\<close>

text \<open>
  What the code takes from the JavaScript runtime and its libraries is a parameter of the
  model:
  \<^item> \<open>to_number_gt0 s\<close>: \<open>s > 0\<close> for a string \<open>s\<close> (the string converted to a number);
  \<^item> \<open>date_now\<close>: \<open>Date.now()\<close>;
  \<^item> \<open>date_to_iso v\<close>: \<open>new Date(v).toISOString()\<close>, \<open>None\<close> where it raises a
    \<open>RangeError\<close> (an invalid date);
  \<^item> \<open>json_parse s\<close>: \<open>JSON.parse(s)\<close>, \<open>None\<close> where it raises;
  \<^item> \<open>json_stringify n v\<close>: \<open>JSON.stringify(v, null, n)\<close>, and \<open>JSON.stringify(v)\<close> for
    \<open>n = 0\<close>;
  \<^item> \<open>url_valid s\<close>: \<open>new URL(s)\<close> does not raise;
  \<^item> \<open>url_href s ps\<close>: the \<open>toString()\<close> of the \<open>URL\<close> made from \<open>s\<close> after
    \<open>searchParams.append(k, v)\<close> for each \<open>(k, v)\<close> of \<open>ps\<close> in turn.
\<close>

record host =
  to_number_gt0 :: "string \<Rightarrow> bool"
  date_now :: int
  date_to_iso :: "js \<Rightarrow> string option"
  json_parse :: "string \<Rightarrow> js option"
  json_stringify :: "nat \<Rightarrow> js \<Rightarrow> string"
  url_valid :: "string \<Rightarrow> bool"
  url_href :: "string \<Rightarrow> (string \<times> string) list \<Rightarrow> string"

text \<open>\<open>v > 0\<close>: the value converted to a number (\<open>undefined\<close> and objects are \<open>NaN\<close>).\<close>

fun gt_zero :: "host \<Rightarrow> js \<Rightarrow> bool" where
  "gt_zero h JUndefined = False"
| "gt_zero h JNull = False"
| "gt_zero h (JBool b) = b"
| "gt_zero h (JNum n) = (0 < n)"
| "gt_zero h (JStr s) = to_number_gt0 h s"
| "gt_zero h (JArr xs) = to_number_gt0 h (js_to_string (JArr xs))"
| "gt_zero h (JObj kvs) = False"

text \<open>\<open>v.length\<close> for a value that is neither \<open>undefined\<close> nor \<open>null\<close>.\<close>

fun length_of :: "js \<Rightarrow> js" where
  "length_of (JArr xs) = JNum (int (length xs))"
| "length_of (JStr s) = JNum (int (length s))"
| "length_of (JObj kvs) = member (JObj kvs) ''length''"
| "length_of v = JUndefined"

text \<open>\<open>Object.entries(v)\<close> for a value that is neither \<open>undefined\<close> nor \<open>null\<close>.\<close>

fun entries :: "js \<Rightarrow> (string \<times> js) list" where
  "entries (JObj kvs) = kvs"
| "entries (JArr xs) = zip (map show_nat [0..<length xs]) xs"
| "entries (JStr s) = zip (map show_nat [0..<length s]) (map (\<lambda>c. JStr [c]) s)"
| "entries v = []"

text \<open>\<open>v.join(sep)\<close>: only an array has the method.\<close>

fun join_method :: "js \<Rightarrow> string \<Rightarrow> js_error + js" where
  "join_method (JArr xs) sep = Inr (JStr (join sep (map join_element xs)))"
| "join_method v sep = Inl (new_TypeError ''errorMessages.join is not a function'')"

section \<open>Error classification (common/errors.ts)\<close>

text \<open>The constructors of the error classes. \<open>Error\<close> converts its message to a string.\<close>

definition new_JiraError :: "js \<Rightarrow> nat \<Rightarrow> js \<Rightarrow> js_error" where
  "new_JiraError msg st resp =
     \<lparr>kind = JiraError, message = js_to_string msg, status = Some st, response = resp\<rparr>"

definition new_JiraValidationError :: "js \<Rightarrow> nat \<Rightarrow> js \<Rightarrow> js_error" where
  "new_JiraValidationError msg st resp = (new_JiraError msg st resp)\<lparr>kind := JiraValidationError\<rparr>"

definition new_JiraResourceNotFoundError :: "js \<Rightarrow> js_error" where
  "new_JiraResourceNotFoundError resource =
     (new_JiraError (JStr (''Resource not found: '' @ js_to_string resource)) 404
        (JObj [(''message'', JStr (js_to_string resource @ '' not found''))]))
     \<lparr>kind := JiraResourceNotFoundError\<rparr>"

definition new_JiraAuthenticationError :: "js \<Rightarrow> js_error" where
  "new_JiraAuthenticationError msg =
     (new_JiraError msg 401 (JObj [(''message'', msg)]))\<lparr>kind := JiraAuthenticationError\<rparr>"

definition new_JiraPermissionError :: "js \<Rightarrow> js_error" where
  "new_JiraPermissionError msg =
     (new_JiraError msg 403 (JObj [(''message'', msg)]))\<lparr>kind := JiraPermissionError\<rparr>"

text \<open>\<open>resetAt.toISOString()\<close> raises a \<open>RangeError\<close> on an invalid date.\<close>

definition new_JiraRateLimitError :: "host \<Rightarrow> js \<Rightarrow> js \<Rightarrow> js_error + js_error" where
  "new_JiraRateLimitError h msg resetAt =
     (case date_to_iso h resetAt of
        None \<Rightarrow> Inl (new_RangeError ''Invalid time value'')
      | Some stamp \<Rightarrow>
          Inr ((new_JiraError msg 429 (JObj [(''message'', msg), (''reset_at'', JStr stamp)]))
               \<lparr>kind := JiraRateLimitError\<rparr>))"

definition new_JiraConflictError :: "js \<Rightarrow> js_error" where
  "new_JiraConflictError msg =
     (new_JiraError msg 409 (JObj [(''message'', msg)]))\<lparr>kind := JiraConflictError\<rparr>"

text \<open>
  The local \<open>message\<close> of \<open>createJiraError\<close>, for a response that is an object:
  \<open>errorMessages.length > 0 ? errorMessages.join(', ') : (entries.join(', ') || response.message || 'Unknown error')\<close>.
\<close>

definition jira_message :: "host \<Rightarrow> js \<Rightarrow> js_error + js" where
  "jira_message h resp =
     (let errorMessages = or_else (member resp ''errorMessages'') (JArr []);
          errors = or_else (member resp ''errors'') (JObj [])
      in if gt_zero h (length_of errorMessages)
         then join_method errorMessages '', ''
         else Inr (or_else
                (or_else
                   (JStr (join '', '' (map (\<lambda>(key, v). key @ '': '' @ js_to_string v) (entries errors))))
                   (member resp ''message''))
                (JStr ''Unknown error'')))"

definition createJiraError :: "host \<Rightarrow> nat \<Rightarrow> js \<Rightarrow> js_error + js_error" where
  "createJiraError h st resp =
     (if truthy resp \<and> typeof_object resp then
        (case jira_message h resp of
           Inl e \<Rightarrow> Inl e
         | Inr msg \<Rightarrow>
             if st = 401 then Inr (new_JiraAuthenticationError msg)
             else if st = 403 then Inr (new_JiraPermissionError msg)
             else if st = 404 then Inr (new_JiraResourceNotFoundError msg)
             else if st = 409 then Inr (new_JiraConflictError msg)
             else if st = 400 \<or> st = 422 then Inr (new_JiraValidationError msg st resp)
             else if st = 429 then
               new_JiraRateLimitError h msg
                 (or_else (member resp ''resetAt'') (JNum (date_now h + 60000)))
             else Inr (new_JiraError msg st resp))
      else Inr (new_JiraError (JStr ''Unknown Jira API error'') st resp))"

section \<open>The request helper (common/utils.ts)\<close>

subsection \<open>Strings\<close>

text \<open>\<open>s.startsWith(p)\<close> and \<open>s.includes(p)\<close>.\<close>

definition startsWith :: "string \<Rightarrow> string \<Rightarrow> bool" where
  "startsWith s p = (take (length p) s = p)"

fun str_includes :: "string \<Rightarrow> string \<Rightarrow> bool" where
  "str_includes [] p = (p = [])"
| "str_includes (c # cs) p = (startsWith (c # cs) p \<or> str_includes cs p)"

text \<open>
  \<open>s.toLowerCase()\<close> on the letters of ASCII. (On a string with other letters JavaScript
  lowers those too; the model leaves their bytes unchanged.)
\<close>

definition lower_char :: "char \<Rightarrow> char" where
  "lower_char c = (let n = (of_char c :: nat) in if 65 \<le> n \<and> n \<le> 90 then char_of (n + 32) else c)"

definition toLowerCase :: "string \<Rightarrow> string" where
  "toLowerCase s = map lower_char s"

subsection \<open>Objects as property lists\<close>

text \<open>\<open>o[k] = v\<close>: an existing property keeps its place, a new one goes last.\<close>

fun obj_set :: "(string \<times> 'v) list \<Rightarrow> string \<Rightarrow> 'v \<Rightarrow> (string \<times> 'v) list" where
  "obj_set [] k v = [(k, v)]"
| "obj_set ((k', v') # kvs) k v = (if k' = k then (k, v) # kvs else (k', v') # obj_set kvs k v)"

text \<open>\<open>{...a, ...b}\<close>\<close>

definition obj_spread :: "(string \<times> 'v) list \<Rightarrow> (string \<times> 'v) list \<Rightarrow> (string \<times> 'v) list" where
  "obj_spread a b = foldl (\<lambda>acc (k, v). obj_set acc k v) a b"

text \<open>\<open>delete o[k]\<close>\<close>

definition obj_delete :: "(string \<times> 'v) list \<Rightarrow> string \<Rightarrow> (string \<times> 'v) list" where
  "obj_delete kvs k = filter (\<lambda>(k', v). k' \<noteq> k) kvs"

subsection \<open>Configuration (common/config.ts)\<close>

text \<open>
  The fields of \<open>JiraConfig\<close> that the request helper reads. (\<open>createConfig\<close> refuses an
  empty e-mail or token, so a configured one is not empty.)
\<close>

record auth_config =
  email :: string
  token :: string

record config =
  apiBaseUrl :: string
  logFile :: string
  auth :: auth_config

subsection \<open>buildUrl\<close>

text \<open>A parameter value is \<open>string | number | undefined\<close>; \<open>undefined\<close> is \<open>None\<close>.\<close>

datatype param_value = PStr string | PNum int

fun param_toString :: "param_value \<Rightarrow> string" where
  "param_toString (PStr s) = s"
| "param_toString (PNum n) = show_int n"

text \<open>\<open>path.replace(/^\//, '')\<close>\<close>

fun cleanPath :: "string \<Rightarrow> string" where
  "cleanPath [] = []"
| "cleanPath (c # cs) = (if c = CHR ''/'' then cs else c # cs)"

text \<open>
  The \<open>URL\<close> object is its constructor's argument and the pairs appended to its search
  parameters so far; the \<open>forEach\<close> over \<open>Object.entries(params)\<close> is the fold.
\<close>

definition buildUrl ::
  "host \<Rightarrow> config \<Rightarrow> string \<Rightarrow> (string \<times> param_value option) list \<Rightarrow> js_error + string" where
  "buildUrl h cfg path params =
     (let s = apiBaseUrl cfg @ ''/'' @ cleanPath path in
      if \<not> url_valid h s then Inl (new_TypeError ''Invalid URL'')
      else Inr (url_href h s
             (foldl (\<lambda>appended (key, v).
                       case v of None \<Rightarrow> appended
                               | Some x \<Rightarrow> appended @ [(key, param_toString x)])
                [] params)))"

subsection \<open>Base64 (Node's Buffer)\<close>

text \<open>
  The character of a six-bit value in the alphabet \<open>A\<close>-\<open>Z\<close>, \<open>a\<close>-\<open>z\<close>, \<open>0\<close>-\<open>9\<close>,
  \<open>+\<close>, \<open>/\<close>.
\<close>

definition sextet_char :: "nat \<Rightarrow> char" where
  "sextet_char n =
     (if n < 26 then char_of (65 + n)
      else if n < 52 then char_of (71 + n)
      else if n < 62 then char_of (n - 4)
      else if n = 62 then CHR ''+''
      else CHR ''/'')"

text \<open>\<open>Buffer.from(s).toString('base64')\<close> on the bytes of \<open>s\<close>.\<close>

fun base64_encode_bytes :: "nat list \<Rightarrow> string" where
  "base64_encode_bytes [] = []"
| "base64_encode_bytes [a] =
     [sextet_char (a div 4), sextet_char ((a mod 4) * 16), CHR ''='', CHR ''='']"
| "base64_encode_bytes [a, b] =
     [sextet_char (a div 4), sextet_char ((a mod 4) * 16 + b div 16),
      sextet_char ((b mod 16) * 4), CHR ''='']"
| "base64_encode_bytes (a # b # c # rest) =
     [sextet_char (a div 4), sextet_char ((a mod 4) * 16 + b div 16),
      sextet_char ((b mod 16) * 4 + c div 64), sextet_char (c mod 64)]
     @ base64_encode_bytes rest"

definition base64_encode :: "string \<Rightarrow> string" where
  "base64_encode s = base64_encode_bytes (map of_char s)"

text \<open>
  \<open>Buffer.from(s, 'base64')\<close> never raises: it reads the characters of the standard and
  of the URL-safe alphabet, skips every other character, and stops at the first \<open>=\<close>.
\<close>

definition sextet_of :: "char \<Rightarrow> nat option" where
  "sextet_of c =
     (let n = (of_char c :: nat) in
      if 65 \<le> n \<and> n \<le> 90 then Some (n - 65)
      else if 97 \<le> n \<and> n \<le> 122 then Some (n - 71)
      else if 48 \<le> n \<and> n \<le> 57 then Some (n + 4)
      else if c = CHR ''+'' \<or> c = CHR ''-'' then Some 62
      else if c = CHR ''/'' \<or> c = CHR ''_'' then Some 63
      else None)"

fun sextets_of :: "string \<Rightarrow> nat list" where
  "sextets_of [] = []"
| "sextets_of (c # cs) =
     (if c = CHR ''='' then []
      else case sextet_of c of None \<Rightarrow> sextets_of cs | Some n \<Rightarrow> n # sextets_of cs)"

fun bytes_of_sextets :: "nat list \<Rightarrow> nat list" where
  "bytes_of_sextets (a # b # c # d # rest) =
     [a * 4 + b div 16, (b mod 16) * 16 + c div 4, (c mod 4) * 64 + d] @ bytes_of_sextets rest"
| "bytes_of_sextets [a, b, c] = [a * 4 + b div 16, (b mod 16) * 16 + c div 4]"
| "bytes_of_sextets [a, b] = [a * 4 + b div 16]"
| "bytes_of_sextets xs = []"

definition base64_decode_bytes :: "string \<Rightarrow> nat list" where
  "base64_decode_bytes s = bytes_of_sextets (sextets_of s)"

text \<open>
  \<open>Buffer.from(s, 'base64').toString()\<close>. Decoding the bytes as UTF-8 keeps every ASCII byte
  as its character, which is all the test for a colon needs; the model keeps the bytes.
\<close>

definition base64_decode :: "string \<Rightarrow> string" where
  "base64_decode s = map char_of (base64_decode_bytes s)"

subsection \<open>constructAuthHeader\<close>

text \<open>
  The result is the header and the messages passed to \<open>logToFile\<close>. (The file gets each
  message behind a time stamp; the model's log is the list of messages.) The \<open>catch\<close> of the
  source is dead code, since decoding never raises.
\<close>

definition constructAuthHeader :: "string \<Rightarrow> string \<Rightarrow> string \<times> string list" where
  "constructAuthHeader email' token' =
     (let decodedToken = base64_decode token' in
      if str_includes decodedToken '':''
      then (''Basic '' @ token', [''Using pre-encoded token''])
      else (let authString = email' @ '':'' @ token' in
            (''Basic '' @ base64_encode authString,
             [''Constructing new auth header with email:token format''])))"

subsection \<open>parseResponseBody\<close>

text \<open>
  A response of \<open>fetch\<close>: \<open>rheaders\<close> is what \<open>response.headers.entries()\<close> yields (names
  in lower case, each once), \<open>body_text\<close> what \<open>response.text()\<close> resolves to.
\<close>

record http_response =
  rstatus :: nat
  statusText :: string
  rheaders :: "(string \<times> string) list"
  body_text :: string

text \<open>\<open>response.ok\<close>\<close>

definition ok :: "http_response \<Rightarrow> bool" where
  "ok r = (200 \<le> rstatus r \<and> rstatus r \<le> 299)"

text \<open>\<open>{ success: true }\<close>\<close>

definition success_true :: js where
  "success_true = JObj [(''success'', JBool True)]"

text \<open>\<open>contentType?.includes(s)\<close>, with \<open>contentType\<close> \<open>null\<close> when the header is missing.\<close>

definition contentType_includes :: "http_response \<Rightarrow> string \<Rightarrow> bool" where
  "contentType_includes r s =
     (case map_of (rheaders r) ''content-type'' of None \<Rightarrow> False | Some ct \<Rightarrow> str_includes ct s)"

text \<open>
  The result and the messages logged. The text of the parse error in the first message is the
  engine's; the model logs the prefix.
\<close>

definition parseResponseBody :: "host \<Rightarrow> http_response \<Rightarrow> (js_error + js) \<times> string list" where
  "parseResponseBody h r =
     (if rstatus r = 204 then (Inr success_true, [])
      else if contentType_includes r ''application/json'' then
        (if body_text r = [] then (Inr success_true, [])
         else case json_parse h (body_text r) of
                Some v \<Rightarrow> (Inr v, [])
              | None \<Rightarrow> (Inr success_true, [''Failed to parse JSON response: '']))
      else if contentType_includes r ''application/xml'' then
        (Inl (new_Error ''Received XML response instead of JSON. This usually indicates an authentication or API endpoint issue.''),
         [''Received XML response: '' @ body_text r])
      else (Inr (JStr (body_text r)), []))"

subsection \<open>jiraRequest\<close>

text \<open>\<open>RequestOptions\<close> (\<open>http_method\<close> is its \<open>method\<close>); a missing \<open>body\<close> is \<open>undefined\<close>, missing \<open>headers\<close> are no headers.\<close>

record RequestOptions =
  http_method :: "string option"
  body :: js
  headers :: "(string \<times> string) list"

definition no_options :: RequestOptions where
  "no_options = \<lparr>http_method = None, body = JUndefined, headers = []\<rparr>"

text \<open>What \<open>fetch\<close> is called with; \<open>req_body\<close> is the serialised body, if any.\<close>

record http_request =
  req_url :: string
  req_method :: string
  req_headers :: "(string \<times> string) list"
  req_body :: "string option"

text \<open>\<open>options.method || "GET"\<close>\<close>

definition method_or_GET :: "RequestOptions \<Rightarrow> string" where
  "method_or_GET options = (case http_method options of None \<Rightarrow> ''GET'' | Some m \<Rightarrow> if m = [] then ''GET'' else m)"

text \<open>The headers before \<open>Authorization\<close> is set; \<open>ua\<close> is the constant \<open>USER_AGENT\<close>.\<close>

definition base_headers :: "string \<Rightarrow> RequestOptions \<Rightarrow> (string \<times> string) list" where
  "base_headers ua options =
     obj_spread
       [(''Content-Type'', ''application/json''), (''Accept'', ''application/json''),
        (''X-Atlassian-Token'', ''no-check''), (''User-Agent'', ua)]
       (headers options)"

text \<open>A record of strings as a value, for \<open>JSON.stringify\<close>.\<close>

definition headers_object :: "(string \<times> string) list \<Rightarrow> js" where
  "headers_object hs = JObj (map (\<lambda>(k, v). (k, JStr v)) hs)"

text \<open>The replacer of the response log: \<open>['token', 'password', 'secret'].includes(key.toLowerCase())\<close>.\<close>

definition sensitive :: "string \<Rightarrow> bool" where
  "sensitive key = (toLowerCase key \<in> set [''token'', ''password'', ''secret''])"

text \<open>
  \<open>JSON.stringify(v, replacer, 2)\<close> is \<open>JSON.stringify\<close> of the value the replacer leaves:
  a property under a sensitive key becomes the string \<open>[REDACTED]\<close> and is not entered,
  every other value is kept and entered. (The keys of array elements are their indices, the
  key of the root is the empty string.)
\<close>

fun sanitize :: "js \<Rightarrow> js" where
  "sanitize (JObj kvs) =
     JObj (map (\<lambda>p. (fst p, if sensitive (fst p) then JStr ''[REDACTED]'' else sanitize (snd p))) kvs)"
| "sanitize (JArr xs) = JArr (map sanitize xs)"
| "sanitize v = v"

definition sanitizedBody :: "host \<Rightarrow> js \<Rightarrow> string" where
  "sanitizedBody h responseBody =
     (if typeof_object responseBody then json_stringify h 2 (sanitize responseBody)
      else js_to_string responseBody)"

text \<open>
  The \<open>try\<close> block from the point where \<open>fetch\<close> has answered with \<open>r\<close>: what it returns
  or throws, and the messages it logs.
\<close>

definition try_response :: "host \<Rightarrow> http_response \<Rightarrow> (js_error + js) \<times> string list" where
  "try_response h r =
     (let log3 = [''Response status: '' @ show_nat (rstatus r) @ '' '' @ statusText r,
                  ''Response headers: '' @ json_stringify h 2 (headers_object (rheaders r))]
      in if rstatus r = 204 then (Inr success_true, log3)
         else (case parseResponseBody h r of
                 (Inl e, logp) \<Rightarrow> (Inl e, log3 @ logp)
               | (Inr responseBody, logp) \<Rightarrow>
                   (let log4 = log3 @ logp @ [''Response body: '' @ sanitizedBody h responseBody]
                    in if \<not> ok r then
                         (case createJiraError h (rstatus r) responseBody of
                            Inl e \<Rightarrow> (Inl e, log4)
                          | Inr e \<Rightarrow> (Inl e, log4))
                       else (Inr responseBody, log4))))"

text \<open>
  The \<open>catch\<close>: whatever is thrown inside the \<open>try\<close> is an \<open>Error\<close> object, so it is logged
  and thrown again.
\<close>

definition catch_rethrow :: "(js_error + js) \<times> string list \<Rightarrow> (js_error + js) \<times> string list" where
  "catch_rethrow res =
     (case fst res of
        Inl e \<Rightarrow> (Inl e, snd res @ [''Request failed: '' @ message e])
      | Inr v \<Rightarrow> res)"

text \<open>
  \<open>jiraRequest\<close>: \<open>fetch\<close> answers the request with a response or rejects. The result is
  what the promise settles to and the messages logged, in order; \<open>ua\<close> is the constant
  \<open>USER_AGENT\<close>.
\<close>

definition jiraRequest ::
  "host \<Rightarrow> config \<Rightarrow> string \<Rightarrow> (http_request \<Rightarrow> js_error + http_response)
     \<Rightarrow> string \<Rightarrow> RequestOptions \<Rightarrow> (js_error + js) \<times> string list" where
  "jiraRequest h cfg ua fetch path options =
     (if email (auth cfg) = [] \<or> token (auth cfg) = []
      then (Inl (new_Error ''Email and token are required for authentication''), [])
      else
        (let authorization = fst (constructAuthHeader (email (auth cfg)) (token (auth cfg)));
             log1 = snd (constructAuthHeader (email (auth cfg)) (token (auth cfg)));
             hs = obj_set (base_headers ua options) ''Authorization'' authorization
         in (case (if startsWith path ''http'' then Inr path else buildUrl h cfg path []) of
               Inl e \<Rightarrow> (Inl e, log1)
             | Inr url \<Rightarrow>
                 (let log2 = log1 @
                       [''Making request to: '' @ url,
                        ''Method: '' @ method_or_GET options,
                        ''Headers: '' @ json_stringify h 2
                            (headers_object (obj_set hs ''Authorization'' ''[REDACTED]''))]
                       @ (if truthy (body options)
                          then [''Request body: '' @ json_stringify h 2 (body options)] else []);
                      tried =
                        (case fetch \<lparr>req_url = url, req_method = method_or_GET options,
                                     req_headers = hs,
                                     req_body = (if truthy (body options)
                                                 then Some (json_stringify h 0 (body options))
                                                 else None)\<rparr> of
                           Inl e \<Rightarrow> (Inl e, [])
                         | Inr r \<Rightarrow> try_response h r)
                  in (fst (catch_rethrow tried), log2 @ snd (catch_rethrow tried))))))"

section \<open>The operations\<close>

text \<open>
  An operation reaches Jira through \<open>jiraRequest\<close> only. For the operations, a call of
  \<open>jiraRequest\<close> is an interaction with the environment: \<open>respond\<close> gives what the call
  settles to (a value, or the \<open>Error\<close> it rejects with), as a function of the calls made
  before and of the call; \<open>settled_at\<close> gives the time at which it settles, which matters
  where calls run jointly. (The request helper above gives one such environment for each
  \<open>fetch\<close>: \<open>respond\<close> maps a call to the first component of \<open>jiraRequest\<close> at its path
  and options.) An operation takes the calls made so far and returns its result with the
  calls made since appended. The console and file output of the operations is not part of
  the model.
\<close>

type_synonym call = "string \<times> RequestOptions"

record server =
  respond :: "call list \<Rightarrow> call \<Rightarrow> js_error + js"
  settled_at :: "call list \<Rightarrow> call \<Rightarrow> nat"

definition await_jiraRequest ::
  "server \<Rightarrow> string \<Rightarrow> RequestOptions \<Rightarrow> call list \<Rightarrow> (js_error + js) \<times> call list" where
  "await_jiraRequest srv path options tr = (respond srv tr (path, options), tr @ [(path, options)])"

subsection \<open>Helpers of operations/update.ts\<close>

definition formatResponse :: "bool \<Rightarrow> string \<Rightarrow> js \<Rightarrow> js" where
  "formatResponse success msg data =
     JObj [(''success'', JBool success), (''message'', JStr msg), (''data'', data)]"

text \<open>Every value thrown in the model is an \<open>Error\<close> object, so the details are its message.\<close>

definition handleOperationError :: "js_error \<Rightarrow> string \<Rightarrow> js" where
  "handleOperationError e operation =
     formatResponse False (''Error '' @ operation @ '': '' @ message e) JUndefined"

text \<open>An \<open>Error\<close> object as a property value of a result.\<close>

fun kind_name :: "error_kind \<Rightarrow> string" where
  "kind_name Error = ''Error''"
| "kind_name TypeError = ''TypeError''"
| "kind_name RangeError = ''RangeError''"
| "kind_name JiraError = ''JiraError''"
| "kind_name JiraValidationError = ''JiraValidationError''"
| "kind_name JiraResourceNotFoundError = ''JiraResourceNotFoundError''"
| "kind_name JiraAuthenticationError = ''JiraAuthenticationError''"
| "kind_name JiraPermissionError = ''JiraPermissionError''"
| "kind_name JiraRateLimitError = ''JiraRateLimitError''"
| "kind_name JiraConflictError = ''JiraConflictError''"

definition error_object :: "js_error \<Rightarrow> js" where
  "error_object e =
     JObj ([(''name'', JStr (kind_name (kind e))), (''message'', JStr (message e))]
           @ (case status e of None \<Rightarrow> []
              | Some st \<Rightarrow> [(''status'', JNum (int st)), (''response'', response e)]))"

subsection \<open>addJiraComment (operations/addComment.ts)\<close>

definition addJiraComment ::
  "server \<Rightarrow> string \<Rightarrow> js \<Rightarrow> call list \<Rightarrow> (js_error + js) \<times> call list" where
  "addJiraComment srv issueIdOrKey comment tr =
     (case await_jiraRequest srv (''issue/'' @ issueIdOrKey @ ''/comment'')
             \<lparr>http_method = Some ''POST'', body = comment, headers = []\<rparr> tr of
        (Inr resp, tr') \<Rightarrow>
          (Inr (JObj [(''success'', JBool True), (''message'', JStr ''Comment added successfully''),
                      (''data'', resp)]), tr')
      | (Inl e, tr') \<Rightarrow>
          (Inr (JObj [(''success'', JBool False), (''message'', JStr (message e)),
                      (''error'', error_object e)]), tr'))"

subsection \<open>getJiraComments (operations/getComments.ts)\<close>


subsection \<open>Status transitions (operations/status.ts)\<close>


text \<open>\<open>v.k\<close> on any value: reading a property of \<open>undefined\<close> or \<open>null\<close> raises.\<close>

definition member_checked :: "js \<Rightarrow> string \<Rightarrow> js_error + js" where
  "member_checked v k =
     (if v = JUndefined \<or> v = JNull
      then Inl (new_TypeError (''Cannot read properties of '' @ js_to_string v @ '' (reading '' @ [CHR 0x27] @ k @ [CHR 0x27] @ '')''))
      else Inr (member v k))"

text \<open>\<open>v.toLowerCase()\<close>: only a string has the method.\<close>

fun toLowerCase_method :: "js \<Rightarrow> js_error + string" where
  "toLowerCase_method (JStr s) = Inr (toLowerCase s)"
| "toLowerCase_method v = Inl (new_TypeError ''toLowerCase is not a function'')"

text \<open>\<open>transition.to.name\<close>\<close>

definition transition_to_name :: "js \<Rightarrow> js_error + js" where
  "transition_to_name t =
     (case member_checked t ''to'' of
        Inl e \<Rightarrow> Inl e
      | Inr to \<Rightarrow> member_checked to ''name'')"

text \<open>
  \<open>transitions.find(transition => transition.to.name.toLowerCase() === targetStatusName.toLowerCase())\<close>
  on the elements of an array, left to right; \<open>None\<close> is \<open>undefined\<close>.
\<close>

fun find_transition :: "js list \<Rightarrow> js \<Rightarrow> js_error + js option" where
  "find_transition [] targetStatusName = Inr None"
| "find_transition (t # ts) targetStatusName =
     (case transition_to_name t of
        Inl e \<Rightarrow> Inl e
      | Inr n \<Rightarrow>
          (case toLowerCase_method n of
             Inl e \<Rightarrow> Inl e
           | Inr l \<Rightarrow>
               (case toLowerCase_method targetStatusName of
                  Inl e \<Rightarrow> Inl e
                | Inr r \<Rightarrow> if l = r then Inr (Some t) else find_transition ts targetStatusName)))"

text \<open>The result is the transition's \<open>id\<close>, or \<open>null\<close>.\<close>

definition findTransitionIdByStatusName :: "js \<Rightarrow> js \<Rightarrow> js_error + js" where
  "findTransitionIdByStatusName transitions targetStatusName =
     (case transitions of
        JArr ts \<Rightarrow>
          (case find_transition ts targetStatusName of
             Inl e \<Rightarrow> Inl e
           | Inr None \<Rightarrow> Inr JNull
           | Inr (Some t) \<Rightarrow> Inr (if truthy t then member t ''id'' else JNull))
      | _ \<Rightarrow> Inl (new_TypeError ''transitions.find is not a function''))"

text \<open>
  \<open>{...additionalFields}\<close> copies the own properties, which \<open>entries\<close> lists (none for
  \<open>undefined\<close>, \<open>null\<close>, a number or a boolean).
\<close>

definition createTransitionRequestBody :: "js \<Rightarrow> js \<Rightarrow> js \<Rightarrow> js" where
  "createTransitionRequestBody transitionId resolution additionalFields =
     (let fields1 = (if truthy resolution then Some [(''resolution'', resolution)] else None);
          fields2 = (if truthy additionalFields
                     then Some (obj_spread (case fields1 of None \<Rightarrow> [] | Some f \<Rightarrow> f)
                                  (entries additionalFields))
                     else fields1)
      in JObj ((''transition'', JObj [(''id'', transitionId)])
               # (case fields2 of None \<Rightarrow> [] | Some f \<Rightarrow> [(''fields'', JObj f)])))"

text \<open>
  The comment step of \<open>transitionJiraStatus\<close>: the text added to the message, the value of
  \<open>commentResult\<close>, and the calls made.
\<close>

definition add_transition_comment ::
  "server \<Rightarrow> string \<Rightarrow> js \<Rightarrow> call list \<Rightarrow> (string \<times> js) \<times> call list" where
  "add_transition_comment srv issueIdOrKey comment tr =
     (if truthy comment then
        (case addJiraComment srv issueIdOrKey (JObj [(''body'', comment)]) tr of
           (Inr commentResult, tr') \<Rightarrow>
             (if truthy (member commentResult ''success'')
              then (('' and added comment'', commentResult), tr')
              else (('' but failed to add comment: '' @ js_to_string (member commentResult ''message''),
                     commentResult), tr'))
         | (Inl commentError, tr') \<Rightarrow>
             (('' but failed to add comment: '' @ message commentError, JNull), tr'))
      else (([], JNull), tr))"

definition transitionJiraStatus ::
  "server \<Rightarrow> string \<Rightarrow> js \<Rightarrow> js \<Rightarrow> js \<Rightarrow> js \<Rightarrow> call list \<Rightarrow> (js_error + js) \<times> call list" where
  "transitionJiraStatus srv issueIdOrKey transitionId comment resolution fields' tr =
     (let body' = createTransitionRequestBody transitionId resolution fields' in
      case await_jiraRequest srv (''issue/'' @ issueIdOrKey @ ''/transitions'')
             \<lparr>http_method = Some ''POST'', body = body', headers = []\<rparr> tr of
        (Inl e, tr') \<Rightarrow> (Inr (handleOperationError e ''transitioning status''), tr')
      | (Inr resp, tr') \<Rightarrow>
          (case add_transition_comment srv issueIdOrKey comment tr' of
             ((suffix, commentResult), tr'') \<Rightarrow>
               (Inr (formatResponse True
                       (''Successfully transitioned status of issue '' @ issueIdOrKey @ suffix)
                       (JObj [(''transition'', resp), (''comment'', commentResult)])), tr'')))"

text \<open>\<open>transitions.map(t => t.to.name)\<close> on the elements of an array.\<close>

fun transition_names :: "js list \<Rightarrow> js_error + js list" where
  "transition_names [] = Inr []"
| "transition_names (t # ts) =
     (case transition_to_name t of
        Inl e \<Rightarrow> Inl e
      | Inr n \<Rightarrow> (case transition_names ts of Inl e \<Rightarrow> Inl e | Inr ns \<Rightarrow> Inr (n # ns)))"

text \<open>
  The \<open>try\<close> block of \<open>transitionJiraStatusByName\<close> after the transitions have arrived:
  \<open>Inl\<close> is what it throws.
\<close>

definition transition_by_name_found ::
  "server \<Rightarrow> string \<Rightarrow> js \<Rightarrow> js \<Rightarrow> js \<Rightarrow> js \<Rightarrow> js \<Rightarrow> call list \<Rightarrow> (js_error + js) \<times> call list" where
  "transition_by_name_found srv issueIdOrKey statusName comment resolution additionalFields
      transitionsResponse tr =
     (case member_checked transitionsResponse ''transitions'' of
        Inl e \<Rightarrow> (Inl e, tr)
      | Inr transitions \<Rightarrow>
          (case findTransitionIdByStatusName transitions statusName of
             Inl e \<Rightarrow> (Inl e, tr)
           | Inr transitionId \<Rightarrow>
               if \<not> truthy transitionId then
                 (case transitions of
                    JArr ts \<Rightarrow>
                      (case transition_names ts of
                         Inl e \<Rightarrow> (Inl e, tr)
                       | Inr ns \<Rightarrow>
                           (Inr (formatResponse False
                                   (''Could not find a transition to status \"'' @ js_to_string statusName
                                    @ ''\". Available transitions are: ''
                                    @ join '', '' (map join_element ns))
                                   JUndefined), tr))
                  | _ \<Rightarrow> (Inl (new_TypeError ''transitions.map is not a function''), tr))
               else transitionJiraStatus srv issueIdOrKey transitionId comment resolution
                      additionalFields tr))"

definition transitionJiraStatusByName ::
  "server \<Rightarrow> string \<Rightarrow> js \<Rightarrow> js \<Rightarrow> js \<Rightarrow> js \<Rightarrow> call list \<Rightarrow> (js_error + js) \<times> call list" where
  "transitionJiraStatusByName srv issueIdOrKey statusName comment resolution additionalFields tr =
     (case await_jiraRequest srv (''issue/'' @ issueIdOrKey @ ''/transitions'') no_options tr of
        (Inl e, tr') \<Rightarrow> (Inr (handleOperationError e ''transitioning status by name''), tr')
      | (Inr transitionsResponse, tr') \<Rightarrow>
          (case transition_by_name_found srv issueIdOrKey statusName comment resolution
                  additionalFields transitionsResponse tr' of
             (Inl e, tr'') \<Rightarrow> (Inr (handleOperationError e ''transitioning status by name''), tr'')
           | (Inr result, tr'') \<Rightarrow> (Inr result, tr'')))"

subsection \<open>updateJiraIssue (operations/update.ts)\<close>

text \<open>
  \<open>existingLabels.map(label => typeof label === "string" ? label : label.name || "")\<close> on
  the elements of an array.
\<close>

fun label_name :: "js \<Rightarrow> js_error + js" where
  "label_name (JStr s) = Inr (JStr s)"
| "label_name label =
     (case member_checked label ''name'' of
        Inl e \<Rightarrow> Inl e
      | Inr n \<Rightarrow> Inr (or_else n (JStr [])))"

fun label_names :: "js list \<Rightarrow> js_error + js list" where
  "label_names [] = Inr []"
| "label_names (l # ls) =
     (case label_name l of
        Inl e \<Rightarrow> Inl e
      | Inr n \<Rightarrow> (case label_names ls of Inl e \<Rightarrow> Inl e | Inr ns \<Rightarrow> Inr (n # ns)))"

text \<open>\<open>currentIssue.fields?.labels || []\<close>, then the \<open>map\<close>, which only an array has.\<close>

definition existingLabelNames :: "js \<Rightarrow> js_error + js list" where
  "existingLabelNames currentIssue =
     (case member_checked currentIssue ''fields'' of
        Inl e \<Rightarrow> Inl e
      | Inr f \<Rightarrow>
          (let existingLabels =
                 or_else (if f = JUndefined \<or> f = JNull then JUndefined else member f ''labels'')
                   (JArr [])
           in case existingLabels of
                JArr ls \<Rightarrow> label_names ls
              | _ \<Rightarrow> Inl (new_TypeError ''existingLabels.map is not a function'')))"

text \<open>\<open>[...v]\<close> for a truthy value: an array gives its elements, a string its characters.\<close>

fun spread_elements :: "js \<Rightarrow> js_error + js list" where
  "spread_elements (JArr xs) = Inr xs"
| "spread_elements (JStr s) = Inr (map (\<lambda>c. JStr [c]) s)"
| "spread_elements v = Inl (new_TypeError ''newLabels is not iterable'')"

text \<open>
  \<open>[...new Set(xs)]\<close>: a \<open>Set\<close> keeps the first of the values that are the same
  (\<open>SameValueZero\<close>). Primitive values are the same when they are equal; the objects and
  arrays of a parsed body are distinct objects, never the same.
\<close>

fun is_primitive :: "js \<Rightarrow> bool" where
  "is_primitive (JArr xs) = False"
| "is_primitive (JObj kvs) = False"
| "is_primitive v = True"

definition same_value :: "js \<Rightarrow> js \<Rightarrow> bool" where
  "same_value a b = (is_primitive a \<and> a = b)"

definition set_add :: "js list \<Rightarrow> js \<Rightarrow> js list" where
  "set_add seen x = (if list_ex (\<lambda>y. same_value y x) seen then seen else seen @ [x])"

definition new_Set :: "js list \<Rightarrow> js list" where
  "new_Set xs = foldl set_add [] xs"

text \<open>
  The fields of the \<open>PUT\<close>: \<open>fieldsWithoutStatus\<close> after the labels are set and the status
  is deleted, and \<open>statusField\<close>.
\<close>

definition merge_labels :: "js \<Rightarrow> js list \<Rightarrow> js_error + (string \<times> js) list \<times> js" where
  "merge_labels fields' existing =
     (let fieldsWithoutStatus = (if truthy fields' then entries fields' else []);
          newLabels = or_else (member (JObj fieldsWithoutStatus) ''labels'') (JArr [])
      in case spread_elements newLabels of
           Inl e \<Rightarrow> Inl e
         | Inr new \<Rightarrow>
             (let allLabels = new_Set (existing @ new);
                  withLabels = obj_set fieldsWithoutStatus ''labels'' (JArr allLabels);
                  statusField = member (JObj withLabels) ''status''
              in Inr (if truthy statusField then obj_delete withLabels ''status'' else withLabels,
                      statusField)))"

record LinkedIssue =
  fromIssueKey :: string
  toIssueKey :: string
  link_type :: string

text \<open>The request of one link (\<open>link_type\<close> is the property \<open>type\<close> of the source).\<close>

definition link_call :: "LinkedIssue \<Rightarrow> call" where
  "link_call link =
     (''issueLink'',
      \<lparr>http_method = Some ''POST'',
       body = JObj [(''type'', JObj [(''name'', JStr (link_type link))]),
                    (''outwardIssue'', JObj [(''key'', JStr (fromIssueKey link))]),
                    (''inwardIssue'', JObj [(''key'', JStr (toIssueKey link))])],
       headers = []\<rparr>)"

text \<open>
  \<open>linkedIssues.map(link => jiraRequest('issueLink', ...))\<close> starts the requests one after
  the other, none awaited: each promise is what the call will settle to and when.
\<close>

fun start_requests ::
  "server \<Rightarrow> call list \<Rightarrow> call list \<Rightarrow> (nat \<times> (js_error + js)) list \<times> call list" where
  "start_requests srv [] tr = ([], tr)"
| "start_requests srv (c # cs) tr =
     (case start_requests srv cs (tr @ [c]) of
        (ps, tr') \<Rightarrow> ((settled_at srv tr c, respond srv tr c) # ps, tr'))"

text \<open>
  \<open>Promise.all\<close> rejects with the rejection that settles first (of two at the same time,
  the one earlier in the list), and resolves with all the values if there is none.
\<close>

fun first_rejection :: "(nat \<times> (js_error + js)) list \<Rightarrow> (nat \<times> js_error) option" where
  "first_rejection [] = None"
| "first_rejection ((t, Inr v) # ps) = first_rejection ps"
| "first_rejection ((t, Inl e) # ps) =
     (case first_rejection ps of
        None \<Rightarrow> Some (t, e)
      | Some (t', e') \<Rightarrow> if t' < t then Some (t', e') else Some (t, e))"

definition Promise_all :: "(nat \<times> (js_error + js)) list \<Rightarrow> js_error + js list" where
  "Promise_all ps =
     (case first_rejection ps of
        Some (t, e) \<Rightarrow> Inl e
      | None \<Rightarrow> Inr (concat (map (\<lambda>p. case snd p of Inr v \<Rightarrow> [v] | Inl e \<Rightarrow> []) ps)))"

text \<open>The link step: \<open>Inl\<close> is what \<open>await Promise.all(linkPromises)\<close> throws.\<close>

definition create_links ::
  "server \<Rightarrow> LinkedIssue list option \<Rightarrow> call list \<Rightarrow> (js_error + unit) \<times> call list" where
  "create_links srv linkedIssues tr =
     (case linkedIssues of
        None \<Rightarrow> (Inr (), tr)
      | Some links \<Rightarrow>
          if length links > 0 then
            (case start_requests srv (map link_call links) tr of
               (linkPromises, tr') \<Rightarrow>
                 (case Promise_all linkPromises of
                    Inl e \<Rightarrow> (Inl e, tr')
                  | Inr vs \<Rightarrow> (Inr (), tr')))
          else (Inr (), tr))"

text \<open>The status step, and the result of the update when nothing has thrown.\<close>

definition finish_update ::
  "server \<Rightarrow> string \<Rightarrow> js \<Rightarrow> call list \<Rightarrow> (js_error + js) \<times> call list" where
  "finish_update srv issueIdOrKey statusField tr =
     (if truthy statusField then
        (case transitionJiraStatusByName srv issueIdOrKey (member statusField ''name'')
                (member statusField ''comment'') (member statusField ''resolution'') JUndefined tr of
           (Inl e, tr') \<Rightarrow> (Inl e, tr')
         | (Inr transitionResult, tr') \<Rightarrow>
             if \<not> truthy (member transitionResult ''success'') then (Inr transitionResult, tr')
             else (Inr (formatResponse True
                          (''Successfully updated issue '' @ issueIdOrKey
                           @ '' and transitioned to status \"''
                           @ js_to_string (member statusField ''name'') @ ''\"'')
                          (member transitionResult ''data'')), tr'))
      else (Inr (formatResponse True (''Successfully updated issue '' @ issueIdOrKey) JUndefined), tr))"

text \<open>The request that updates the fields.\<close>

definition put_call :: "string \<Rightarrow> (string \<times> js) list \<Rightarrow> js \<Rightarrow> call" where
  "put_call issueIdOrKey fieldsWithoutStatus update' =
     (''issue/'' @ issueIdOrKey,
      \<lparr>http_method = Some ''PUT'',
       body = JObj [(''fields'', JObj fieldsWithoutStatus), (''update'', or_else update' (JObj []))],
       headers = []\<rparr>)"

text \<open>The \<open>try\<close> block of \<open>updateJiraIssue\<close> after the current issue has arrived.\<close>

definition update_fetched ::
  "server \<Rightarrow> string \<Rightarrow> js \<Rightarrow> js \<Rightarrow> LinkedIssue list option \<Rightarrow> js \<Rightarrow> call list
     \<Rightarrow> (js_error + js) \<times> call list" where
  "update_fetched srv issueIdOrKey fields' update' linkedIssues currentIssue tr =
     (case existingLabelNames currentIssue of
        Inl e \<Rightarrow> (Inl e, tr)
      | Inr existing \<Rightarrow>
          (case merge_labels fields' existing of
             Inl e \<Rightarrow> (Inl e, tr)
           | Inr (fieldsWithoutStatus, statusField) \<Rightarrow>
               (case (if length fieldsWithoutStatus > 0
                         \<or> (truthy update' \<and> length (entries update') > 0)
                      then (case await_jiraRequest srv
                                   (fst (put_call issueIdOrKey fieldsWithoutStatus update'))
                                   (snd (put_call issueIdOrKey fieldsWithoutStatus update')) tr of
                              (Inl e, tr') \<Rightarrow> (Inl e, tr')
                            | (Inr v, tr') \<Rightarrow> (Inr (), tr'))
                      else (Inr (), tr)) of
                  (Inl e, tr') \<Rightarrow> (Inl e, tr')
                | (Inr u, tr') \<Rightarrow>
                    (case create_links srv linkedIssues tr' of
                       (Inl e, tr'') \<Rightarrow> (Inl e, tr'')
                     | (Inr u', tr'') \<Rightarrow> finish_update srv issueIdOrKey statusField tr''))))"

text \<open>The request that fetches the current labels.\<close>

definition labels_call :: "string \<Rightarrow> call" where
  "labels_call issueIdOrKey =
     (''issue/'' @ issueIdOrKey @ ''?fields=labels'',
      \<lparr>http_method = Some ''GET'', body = JUndefined, headers = []\<rparr>)"

definition updateJiraIssue ::
  "server \<Rightarrow> string \<Rightarrow> js \<Rightarrow> js \<Rightarrow> LinkedIssue list option \<Rightarrow> call list
     \<Rightarrow> (js_error + js) \<times> call list" where
  "updateJiraIssue srv issueIdOrKey fields' update' linkedIssues tr =
     (case (case await_jiraRequest srv (fst (labels_call issueIdOrKey))
                   (snd (labels_call issueIdOrKey)) tr of
              (Inl e, tr') \<Rightarrow> (Inl e, tr')
            | (Inr currentIssue, tr') \<Rightarrow>
                update_fetched srv issueIdOrKey fields' update' linkedIssues currentIssue tr') of
        (Inl e, tr'') \<Rightarrow> (Inr (handleOperationError e ''updating issue''), tr'')
      | (Inr result, tr'') \<Rightarrow> (Inr result, tr''))"

subsection \<open>getProjectComponents (operations/getProjectComponents.ts)\<close>






subsection \<open>searchJiraIssues (operations/search.ts)\<close>

record JiraSearch =
  jql :: string
  startAt :: "int option"
  maxResults :: "int option"
  search_fields :: "string list option"
  expand :: "string list option"
  properties :: "string list option"
  fieldsByKeys :: "bool option"

text \<open>\<open>/^[A-Z]+-\d+$/.test(s)\<close>\<close>

definition is_upper :: "char \<Rightarrow> bool" where
  "is_upper c = (65 \<le> (of_char c :: nat) \<and> (of_char c :: nat) \<le> 90)"

definition is_digit :: "char \<Rightarrow> bool" where
  "is_digit c = (48 \<le> (of_char c :: nat) \<and> (of_char c :: nat) \<le> 57)"

definition issue_key_test :: "string \<Rightarrow> bool" where
  "issue_key_test s =
     (takeWhile is_upper s \<noteq> [] \<and>
      (case dropWhile is_upper s of
         [] \<Rightarrow> False
       | c # ds \<Rightarrow> c = CHR ''-'' \<and> ds \<noteq> [] \<and> list_all is_digit ds))"

text \<open>The parameters of the search, as the object literal passed to \<open>buildUrl\<close> lists them.\<close>

definition search_params :: "JiraSearch \<Rightarrow> (string \<times> param_value option) list" where
  "search_params params =
     [(''jql'', Some (PStr (jql params))),
      (''startAt'', map_option (\<lambda>n. PStr (show_int n)) (startAt params)),
      (''maxResults'', map_option (\<lambda>n. PStr (show_int n)) (maxResults params)),
      (''fields'', map_option (\<lambda>xs. PStr (join '','' xs)) (search_fields params)),
      (''expand'', map_option (\<lambda>xs. PStr (join '','' xs)) (expand params)),
      (''properties'', map_option (\<lambda>xs. PStr (join '','' xs)) (properties params)),
      (''fieldsByKeys'', map_option (\<lambda>b. PStr (if b then ''true'' else ''false'')) (fieldsByKeys params))]"

text \<open>The regular search: \<open>buildUrl\<close> may raise before any request is made.\<close>

definition jql_search ::
  "host \<Rightarrow> config \<Rightarrow> server \<Rightarrow> JiraSearch \<Rightarrow> call list \<Rightarrow> (js_error + js) \<times> call list" where
  "jql_search h cfg srv params tr =
     (case buildUrl h cfg ''search'' (search_params params) of
        Inl e \<Rightarrow> (Inl e, tr)
      | Inr url \<Rightarrow> await_jiraRequest srv url no_options tr)"

definition searchJiraIssues ::
  "host \<Rightarrow> config \<Rightarrow> server \<Rightarrow> JiraSearch \<Rightarrow> call list \<Rightarrow> (js_error + js) \<times> call list" where
  "searchJiraIssues h cfg srv params tr =
     (if issue_key_test (jql params) then
        (case await_jiraRequest srv (''issue/'' @ jql params)
                \<lparr>http_method = None, body = JUndefined, headers = [(''Accept'', ''application/json'')]\<rparr> tr of
           (Inr issue, tr') \<Rightarrow>
             (Inr (JObj [(''issues'', JArr [issue]), (''total'', JNum 1), (''maxResults'', JNum 1)]), tr')
         | (Inl e, tr') \<Rightarrow> jql_search h cfg srv params tr')
      else jql_search h cfg srv params tr)"

section \<open>The taxonomy of the specification\<close>

text \<open>
  The error kind the specification gives each HTTP status: 401 authentication, 403
  permission, 404 not found, 409 conflict, 400 and 422 validation, 429 rate limit, every
  other status the generic error.
\<close>

definition status_kind :: "nat \<Rightarrow> error_kind" where
  "status_kind st =
     (if st = 401 then JiraAuthenticationError
      else if st = 403 then JiraPermissionError
      else if st = 404 then JiraResourceNotFoundError
      else if st = 409 then JiraConflictError
      else if st = 400 \<or> st = 422 then JiraValidationError
      else if st = 429 then JiraRateLimitError
      else JiraError)"


text \<open>
  A host for evaluating instances. \<open>json_text\<close> prints a value as JSON on one line,
  without escapes; a \<open>URL\<close> prints as its string followed by the appended pairs as a
  query, without escapes; no body parses; every date is valid.
\<close>

fun json_text :: "js \<Rightarrow> string" where
  "json_text JUndefined = ''null''"
| "json_text JNull = ''null''"
| "json_text (JBool b) = (if b then ''true'' else ''false'')"
| "json_text (JNum n) = show_int n"
| "json_text (JStr s) = ''\"'' @ s @ ''\"''"
| "json_text (JArr xs) = ''['' @ join '','' (map json_text xs) @ '']''"
| "json_text (JObj kvs) =
     ''{'' @ join '','' (map (\<lambda>p. ''\"'' @ fst p @ ''\":'' @ json_text (snd p)) kvs) @ ''}''"

definition plain_host :: host where
  "plain_host =
     \<lparr>to_number_gt0 = (\<lambda>s. False),
      date_now = 0,
      date_to_iso = (\<lambda>v. Some ''1970-01-01T00:01:00.000Z''),
      json_parse = (\<lambda>s. None),
      json_stringify = (\<lambda>n v. json_text v),
      url_valid = (\<lambda>s. True),
      url_href = (\<lambda>s ps. s @ (if ps = [] then []
                                else ''?'' @ join ''&'' (map (\<lambda>(k, v). k @ ''='' @ v) ps)))\<rparr>"

text \<open>A configuration and a user agent for evaluating instances.\<close>

definition example_config :: config where
  "example_config =
     \<lparr>apiBaseUrl = ''https://jira.example.com/rest/api/2'', logFile = ''jira-api.log'',
      auth = \<lparr>email = ''me@example.com'', token = ''secret''\<rparr>\<rparr>"

definition example_agent :: string where
  "example_agent = ''modelcontextprotocol/servers/jira''"

text \<open>Two servers for evaluating instances: one resolves every call, one rejects every call.\<close>

definition accepting_server :: server where
  "accepting_server = \<lparr>respond = (\<lambda>tr c. Inr (JObj [])), settled_at = (\<lambda>tr c. length tr)\<rparr>"

definition rejecting_server :: server where
  "rejecting_server =
     \<lparr>respond = (\<lambda>tr c. Inl (new_Error ''fetch failed'')), settled_at = (\<lambda>tr c. length tr)\<rparr>"

text \<open>A server that resolves every call but those to a comment endpoint.\<close>

definition comment_rejecting_server :: server where
  "comment_rejecting_server =
     \<lparr>respond = (\<lambda>tr c. if str_includes (fst c) ''/comment''
                         then Inl (new_Error ''fetch failed'') else Inr (JObj [])),
      settled_at = (\<lambda>tr c. length tr)\<rparr>"


definition link_rejecting_server :: server where
  "link_rejecting_server =
     \<lparr>respond = (\<lambda>tr c. if fst c = ''issueLink''
                         then Inl (new_Error (''link rejected after '' @ show_nat (length tr) @ '' calls''))
                         else Inr (JObj [])),
      settled_at = (\<lambda>tr c. 10 - length tr)\<rparr>"

section \<open>The requests of the operations\<close>

text \<open>The request that applies a transition, and the request that adds a comment.\<close>

definition transition_call :: "string \<Rightarrow> js \<Rightarrow> js \<Rightarrow> js \<Rightarrow> call" where
  "transition_call issueIdOrKey transitionId resolution additionalFields =
     (''issue/'' @ issueIdOrKey @ ''/transitions'',
      \<lparr>http_method = Some ''POST'',
       body = createTransitionRequestBody transitionId resolution additionalFields,
       headers = []\<rparr>)"

definition comment_call :: "string \<Rightarrow> js \<Rightarrow> call" where
  "comment_call issueIdOrKey comment =
     (''issue/'' @ issueIdOrKey @ ''/comment'',
      \<lparr>http_method = Some ''POST'', body = comment, headers = []\<rparr>)"

text \<open>The direct fetch of an issue, the listing of the transitions and of the components.\<close>

definition issue_call :: "string \<Rightarrow> call" where
  "issue_call issueKey =
     (''issue/'' @ issueKey,
      \<lparr>http_method = None, body = JUndefined, headers = [(''Accept'', ''application/json'')]\<rparr>)"

definition transitions_call :: "string \<Rightarrow> call" where
  "transitions_call issueIdOrKey = (''issue/'' @ issueIdOrKey @ ''/transitions'', no_options)"



text \<open>
  A call of the status step: its path starts with \<open>issue/\<close>, and it is no \<open>PUT\<close>.
\<close>

definition status_step_call :: "call \<Rightarrow> bool" where
  "status_step_call c = (startsWith (fst c) ''issue/'' \<and> http_method (snd c) \<noteq> Some ''PUT'')"

section \<open>Lists without duplicates\<close>


section \<open>Properties\<close>

subsection \<open>Error classification\<close>

lemma jira_message_cases:
  assumes "jira_message h resp = Inr msg"
  shows "(\<exists>xs. member resp ''errorMessages'' = JArr xs \<and> xs \<noteq> [] \<and> msg = JStr (join '', '' (map join_element xs)))
       \<or> msg = JStr (join '', '' (map (\<lambda>(key, v). key @ '': '' @ js_to_string v)
                                     (entries (or_else (member resp ''errors'') (JObj [])))))
       \<or> msg = member resp ''message''
       \<or> msg = JStr ''Unknown error''"
proof (cases "gt_zero h (length_of (or_else (member resp ''errorMessages'') (JArr [])))")
  case True
  with assms have j: "join_method (or_else (member resp ''errorMessages'') (JArr [])) '', '' = Inr msg"
    by (simp add: jira_message_def)
  then obtain xs where xs: "or_else (member resp ''errorMessages'') (JArr []) = JArr xs"
    by (cases "or_else (member resp ''errorMessages'') (JArr [])") auto
  with True have ne: "xs \<noteq> []" by auto
  with xs have "member resp ''errorMessages'' = JArr xs"
    by (auto simp: or_else_def split: if_splits)
  with j xs ne show ?thesis by auto
next
  case False
  with assms show ?thesis
    by (auto simp: jira_message_def or_else_def split: if_splits)
qed

lemma jira_message_returns:
  assumes "member resp ''errorMessages'' = JUndefined \<or> (\<exists>xs. member resp ''errorMessages'' = JArr xs)"
  shows "\<exists>msg. jira_message h resp = Inr msg"
  using assms by (auto simp: jira_message_def or_else_def)

text \<open>
  Claim C2, as amended. For a response body that is not an object (a text body, \<open>null\<close>,
  a number, ...) \<open>createJiraError\<close> gives the generic \<open>JiraError\<close> with the message
  \<open>Unknown Jira API error\<close>, whatever the status. For a body that is an object or an array
  it returns an error whenever \<open>errorMessages\<close> is missing or an array and, for a 429, the
  reset date is valid; and whenever it returns, the kind of the error is the one the
  taxonomy gives the status (401 authentication, 403 permission, 404 not found, 409
  conflict, 400 and 422 validation, 429 rate limit, otherwise generic), and its message is
  made from the joined \<open>errorMessages\<close>, else from the joined entries of \<open>errors\<close>, else
  from \<open>message\<close>, else it is \<open>Unknown error\<close> (behind \<open>Resource not found:\<close> for a 404).
\<close>

theorem createJiraError_taxonomy:
  "(\<not> (truthy resp \<and> typeof_object resp) \<longrightarrow>
      createJiraError h st resp = Inr (new_JiraError (JStr ''Unknown Jira API error'') st resp))
   \<and> (truthy resp \<and> typeof_object resp
      \<and> (member resp ''errorMessages'' = JUndefined \<or> (\<exists>xs. member resp ''errorMessages'' = JArr xs))
      \<and> (st = 429 \<longrightarrow>
           date_to_iso h (or_else (member resp ''resetAt'') (JNum (date_now h + 60000))) \<noteq> None)
      \<longrightarrow> (\<exists>e. createJiraError h st resp = Inr e))
   \<and> (\<forall>e. truthy resp \<and> typeof_object resp \<and> createJiraError h st resp = Inr e \<longrightarrow>
        kind e = status_kind st
        \<and> (\<exists>msg. jira_message h resp = Inr msg
              \<and> message e = (if st = 404 then ''Resource not found: '' @ js_to_string msg
                             else js_to_string msg)
              \<and> ((\<exists>xs. member resp ''errorMessages'' = JArr xs \<and> xs \<noteq> []
                       \<and> msg = JStr (join '', '' (map join_element xs)))
                 \<or> msg = JStr (join '', '' (map (\<lambda>(key, v). key @ '': '' @ js_to_string v)
                                               (entries (or_else (member resp ''errors'') (JObj [])))))
                 \<or> msg = member resp ''message''
                 \<or> msg = JStr ''Unknown error'')))"
proof -
  have A: "\<not> (truthy resp \<and> typeof_object resp) \<longrightarrow>
      createJiraError h st resp = Inr (new_JiraError (JStr ''Unknown Jira API error'') st resp)"
    by (auto simp: createJiraError_def)
  have B: "truthy resp \<and> typeof_object resp
      \<and> (member resp ''errorMessages'' = JUndefined \<or> (\<exists>xs. member resp ''errorMessages'' = JArr xs))
      \<and> (st = 429 \<longrightarrow>
           date_to_iso h (or_else (member resp ''resetAt'') (JNum (date_now h + 60000))) \<noteq> None)
      \<longrightarrow> (\<exists>e. createJiraError h st resp = Inr e)"
  proof
    assume a: "truthy resp \<and> typeof_object resp
      \<and> (member resp ''errorMessages'' = JUndefined \<or> (\<exists>xs. member resp ''errorMessages'' = JArr xs))
      \<and> (st = 429 \<longrightarrow>
           date_to_iso h (or_else (member resp ''resetAt'') (JNum (date_now h + 60000))) \<noteq> None)"
    then obtain msg where "jira_message h resp = Inr msg"
      using jira_message_returns by blast
    with a show "\<exists>e. createJiraError h st resp = Inr e"
      by (auto simp: createJiraError_def new_JiraRateLimitError_def)
  qed
  have C: "\<forall>e. truthy resp \<and> typeof_object resp \<and> createJiraError h st resp = Inr e \<longrightarrow>
        kind e = status_kind st
        \<and> (\<exists>msg. jira_message h resp = Inr msg
              \<and> message e = (if st = 404 then ''Resource not found: '' @ js_to_string msg
                             else js_to_string msg)
              \<and> ((\<exists>xs. member resp ''errorMessages'' = JArr xs \<and> xs \<noteq> []
                       \<and> msg = JStr (join '', '' (map join_element xs)))
                 \<or> msg = JStr (join '', '' (map (\<lambda>(key, v). key @ '': '' @ js_to_string v)
                                               (entries (or_else (member resp ''errors'') (JObj [])))))
                 \<or> msg = member resp ''message''
                 \<or> msg = JStr ''Unknown error''))"
  proof (intro allI impI)
    fix e
    assume a: "truthy resp \<and> typeof_object resp \<and> createJiraError h st resp = Inr e"
    then obtain msg where msg: "jira_message h resp = Inr msg"
      by (cases "jira_message h resp") (auto simp: createJiraError_def)
    from a msg have k: "kind e = status_kind st"
      by (auto simp: createJiraError_def status_kind_def new_JiraError_def
          new_JiraAuthenticationError_def new_JiraPermissionError_def
          new_JiraResourceNotFoundError_def new_JiraConflictError_def new_JiraValidationError_def
          new_JiraRateLimitError_def split: if_splits option.splits)
    from a msg have m: "message e = (if st = 404 then ''Resource not found: '' @ js_to_string msg
                               else js_to_string msg)"
      by (auto simp: createJiraError_def new_JiraError_def
          new_JiraAuthenticationError_def new_JiraPermissionError_def
          new_JiraResourceNotFoundError_def new_JiraConflictError_def new_JiraValidationError_def
          new_JiraRateLimitError_def split: if_splits option.splits)
    from k m msg jira_message_cases[OF msg]
    show "kind e = status_kind st
          \<and> (\<exists>msg. jira_message h resp = Inr msg
                \<and> message e = (if st = 404 then ''Resource not found: '' @ js_to_string msg
                               else js_to_string msg)
                \<and> ((\<exists>xs. member resp ''errorMessages'' = JArr xs \<and> xs \<noteq> []
                         \<and> msg = JStr (join '', '' (map join_element xs)))
                   \<or> msg = JStr (join '', '' (map (\<lambda>(key, v). key @ '': '' @ js_to_string v)
                                                 (entries (or_else (member resp ''errors'') (JObj [])))))
                   \<or> msg = member resp ''message''
                   \<or> msg = JStr ''Unknown error''))"
      by blast
  qed
  from A B C show ?thesis by blast
qed

text \<open>The theorem at a 404 with one error message, and at a 500 with a text body.\<close>

theorem createJiraError_taxonomy_witness:
  "createJiraError plain_host 404 (JObj [(''errorMessages'', JArr [JStr ''Issue Does Not Exist''])])
     = Inr \<lparr>kind = JiraResourceNotFoundError,
            message = ''Resource not found: Issue Does Not Exist'',
            status = Some 404,
            response = JObj [(''message'', JStr ''Issue Does Not Exist not found'')]\<rparr>
   \<and> status_kind 404 = JiraResourceNotFoundError
   \<and> createJiraError plain_host 500 (JStr ''Bad Gateway'')
       = Inr (new_JiraError (JStr ''Unknown Jira API error'') 500 (JStr ''Bad Gateway''))"
  using createJiraError_taxonomy [of "JObj [(''errorMessages'', JArr [JStr ''Issue Does Not Exist''])]" plain_host 404]
    createJiraError_taxonomy [of "JStr ''Bad Gateway''" plain_host 500]
  by (simp add: createJiraError_def jira_message_def or_else_def new_JiraResourceNotFoundError_def
      new_JiraError_def join_element_def status_kind_def)

text \<open>
  Claim C2 as stated fails on a body that is not an object: a 401 with the text body
  \<open>Unauthorized\<close> gives the generic \<open>JiraError\<close>, not the authentication error.
\<close>

theorem createJiraError_counterexample:
  "createJiraError plain_host 401 (JStr ''Unauthorized'')
     = Inr \<lparr>kind = JiraError, message = ''Unknown Jira API error'', status = Some 401,
            response = JStr ''Unauthorized''\<rparr>
   \<and> status_kind 401 = JiraAuthenticationError"
  by (simp add: createJiraError_def new_JiraError_def status_kind_def)

subsection \<open>URL construction\<close>





subsection \<open>The Authorization header\<close>

lemma sextet_char_alphabet:
  "map sextet_char [0..<64] = ''ABCDEFGHIJKLMNOPQRSTUVWXYZabcdefghijklmnopqrstuvwxyz0123456789+/''"
  by code_simp













subsection \<open>Responses\<close>

lemma jiraRequest_result:
  assumes "email (auth cfg) \<noteq> []" and "token (auth cfg) \<noteq> []"
    and "startsWith path ''http'' \<or> url_valid h (apiBaseUrl cfg @ ''/'' @ cleanPath path)"
  shows "fst (jiraRequest h cfg ua (\<lambda>req. Inr r) path options) = fst (try_response h r)"
proof -
  have "\<exists>url. (if startsWith path ''http'' then Inr path else buildUrl h cfg path []) = Inr url"
    using assms(3) by (cases "startsWith path ''http''") (simp_all add: buildUrl_def)
  then obtain url where url: "(if startsWith path ''http'' then Inr path else buildUrl h cfg path []) = Inr url"
    by blast
  have "fst (catch_rethrow (try_response h r)) = fst (try_response h r)"
    by (cases "fst (try_response h r)") (auto simp: catch_rethrow_def)
  with assms(1,2) url show ?thesis
    by (simp add: jiraRequest_def Let_def)
qed

lemma parseResponseBody_error_kind:
  "fst (parseResponseBody h r) = Inl e \<Longrightarrow> kind e = Error"
  by (auto simp: parseResponseBody_def new_Error_def split: if_splits option.splits)

lemma createJiraError_thrown_kind:
  "createJiraError h st resp = Inl e \<Longrightarrow> kind e = TypeError \<or> kind e = RangeError"
proof -
  assume a: "createJiraError h st resp = Inl e"
  have jm: "\<And>e'. jira_message h resp = Inl e' \<Longrightarrow> kind e' = TypeError"
  proof -
    fix e' assume "jira_message h resp = Inl e'"
    then have "join_method (or_else (member resp ''errorMessages'') (JArr [])) '', '' = Inl e'"
      by (auto simp: jira_message_def Let_def split: if_splits)
    then show "kind e' = TypeError"
      by (cases "or_else (member resp ''errorMessages'') (JArr [])") (auto simp: new_TypeError_def)
  qed
  from a show ?thesis
    by (auto simp: createJiraError_def new_JiraRateLimitError_def new_RangeError_def
        dest: jm split: if_splits sum.splits option.splits)
qed

lemma try_response_jira_error:
  assumes "fst (try_response h r) = Inl e" and "isJiraError e"
  shows "\<not> ok r \<and> rstatus r \<noteq> 204"
proof (cases "parseResponseBody h r")
  case (Pair res logp)
  show ?thesis
  proof (cases res)
    case (Inl e')
    with Pair assms(1) have "e' = e" "rstatus r \<noteq> 204"
      by (auto simp: try_response_def Let_def split: if_splits)
    moreover from Pair Inl have "kind e' = Error"
      using parseResponseBody_error_kind [of h r e'] by simp
    ultimately show ?thesis using assms(2) by simp
  next
    case (Inr v)
    show ?thesis
    proof (cases "ok r")
      case True
      with Pair Inr assms(1) show ?thesis
        by (auto simp: try_response_def Let_def split: if_splits)
    next
      case False
      with Pair Inr assms(1) show ?thesis
        by (auto simp: try_response_def Let_def split: if_splits)
    qed
  qed
qed

text \<open>
  Claim C10, as amended, for a request that reaches \<open>fetch\<close> (credentials configured, URL
  accepted) and is answered with the response \<open>r\<close>. A 204 yields \<open>{ success: true }\<close>. A
  JSON-typed response with an empty body or a body that does not parse yields
  \<open>{ success: true }\<close> from \<open>parseResponseBody\<close>, and from \<open>jiraRequest\<close> when the
  status is in the 2xx range. A response other than a 204 whose content type contains
  \<open>application/xml\<close> and not \<open>application/json\<close> raises a plain \<open>Error\<close>. A
  \<open>JiraError\<close> is raised only for a status outside the 2xx range.
\<close>

theorem jiraRequest_response_outcomes:
  assumes "email (auth cfg) \<noteq> []" and "token (auth cfg) \<noteq> []"
    and "startsWith path ''http'' \<or> url_valid h (apiBaseUrl cfg @ ''/'' @ cleanPath path)"
  shows
   "(rstatus r = 204 \<longrightarrow>
       fst (parseResponseBody h r) = Inr success_true
       \<and> fst (jiraRequest h cfg ua (\<lambda>req. Inr r) path options) = Inr success_true)
    \<and> (contentType_includes r ''application/json''
        \<and> (body_text r = [] \<or> json_parse h (body_text r) = None) \<longrightarrow>
         fst (parseResponseBody h r) = Inr success_true
         \<and> (ok r \<longrightarrow> fst (jiraRequest h cfg ua (\<lambda>req. Inr r) path options) = Inr success_true))
    \<and> (rstatus r \<noteq> 204 \<and> contentType_includes r ''application/xml''
        \<and> \<not> contentType_includes r ''application/json'' \<longrightarrow>
         (\<exists>e. fst (jiraRequest h cfg ua (\<lambda>req. Inr r) path options) = Inl e \<and> kind e = Error))
    \<and> (\<forall>e. fst (jiraRequest h cfg ua (\<lambda>req. Inr r) path options) = Inl e \<and> isJiraError e \<longrightarrow>
         \<not> ok r \<and> rstatus r \<noteq> 204)"
proof -
  note res = jiraRequest_result [OF assms, of ua r options]
  have A: "rstatus r = 204 \<longrightarrow>
       fst (parseResponseBody h r) = Inr success_true
       \<and> fst (jiraRequest h cfg ua (\<lambda>req. Inr r) path options) = Inr success_true"
    by (simp add: res try_response_def parseResponseBody_def Let_def)
  have B: "contentType_includes r ''application/json''
        \<and> (body_text r = [] \<or> json_parse h (body_text r) = None) \<longrightarrow>
         fst (parseResponseBody h r) = Inr success_true
         \<and> (ok r \<longrightarrow> fst (jiraRequest h cfg ua (\<lambda>req. Inr r) path options) = Inr success_true)"
    by (auto simp: res try_response_def parseResponseBody_def Let_def)
  have C: "rstatus r \<noteq> 204 \<and> contentType_includes r ''application/xml''
        \<and> \<not> contentType_includes r ''application/json'' \<longrightarrow>
         (\<exists>e. fst (jiraRequest h cfg ua (\<lambda>req. Inr r) path options) = Inl e \<and> kind e = Error)"
    by (auto simp: res try_response_def parseResponseBody_def Let_def new_Error_def)
  have D: "\<forall>e. fst (jiraRequest h cfg ua (\<lambda>req. Inr r) path options) = Inl e \<and> isJiraError e \<longrightarrow>
         \<not> ok r \<and> rstatus r \<noteq> 204"
    using try_response_jira_error [of h r] by (simp add: res)
  from A B C D show ?thesis by blast
qed


text \<open>The theorem at a 200 with a JSON content type and an empty body.\<close>

theorem jiraRequest_response_outcomes_witness:
  "email (auth example_config) \<noteq> [] \<and> token (auth example_config) \<noteq> []
   \<and> url_valid plain_host (apiBaseUrl example_config @ ''/'' @ cleanPath ''myself'')
   \<and> contentType_includes
         \<lparr>rstatus = 200, statusText = ''OK'',
          rheaders = [(''content-type'', ''application/json;charset=UTF-8'')], body_text = []\<rparr>
         ''application/json''
   \<and> fst (jiraRequest plain_host example_config example_agent
            (\<lambda>req. Inr \<lparr>rstatus = 200, statusText = ''OK'',
                          rheaders = [(''content-type'', ''application/json;charset=UTF-8'')],
                          body_text = []\<rparr>)
            ''myself'' no_options) = Inr success_true"
proof -
  have h1: "email (auth example_config) \<noteq> []" by (simp add: example_config_def)
  have h2: "token (auth example_config) \<noteq> []" by (simp add: example_config_def)
  have h3: "startsWith ''myself'' ''http''
            \<or> url_valid plain_host (apiBaseUrl example_config @ ''/'' @ cleanPath ''myself'')"
    by (simp add: plain_host_def)
  show ?thesis
    using h1 h2 jiraRequest_response_outcomes [OF h1 h2 h3,
        of "\<lparr>rstatus = 200, statusText = ''OK'',
             rheaders = [(''content-type'', ''application/json;charset=UTF-8'')], body_text = []\<rparr>"
           example_agent no_options]
    by (simp add: plain_host_def contentType_includes_def startsWith_def ok_def)
qed

text \<open>
  Claim C10 as stated fails for a 204 whose content type is \<open>application/xml\<close>: the status
  is tested first, so the request yields \<open>{ success: true }\<close> and raises nothing.
\<close>

theorem jiraRequest_xml_counterexample:
  "contentType_includes
     \<lparr>rstatus = 204, statusText = ''No Content'',
      rheaders = [(''content-type'', ''application/xml'')], body_text = []\<rparr> ''application/xml''
   \<and> fst (jiraRequest plain_host example_config example_agent
            (\<lambda>req. Inr \<lparr>rstatus = 204, statusText = ''No Content'',
                          rheaders = [(''content-type'', ''application/xml'')], body_text = []\<rparr>)
            ''myself'' no_options) = Inr success_true"
proof -
  have h1: "email (auth example_config) \<noteq> []" by (simp add: example_config_def)
  have h2: "token (auth example_config) \<noteq> []" by (simp add: example_config_def)
  have h3: "startsWith ''myself'' ''http''
            \<or> url_valid plain_host (apiBaseUrl example_config @ ''/'' @ cleanPath ''myself'')"
    by (simp add: plain_host_def)
  show ?thesis
    using jiraRequest_result [OF h1 h2 h3,
        of example_agent "\<lparr>rstatus = 204, statusText = ''No Content'',
             rheaders = [(''content-type'', ''application/xml'')], body_text = []\<rparr>" no_options]
    by (simp add: contentType_includes_def startsWith_def try_response_def Let_def)
qed

subsection \<open>The log\<close>

lemma startsWith_Nil [simp]: "startsWith s []"
  by (simp add: startsWith_def)

lemma startsWith_Cons [simp]: "startsWith (c # s) (d # p) = (c = d \<and> startsWith s p)"
  by (auto simp: startsWith_def)

lemma startsWith_Nil_Cons [simp]: "\<not> startsWith [] (d # p)"
  by (simp add: startsWith_def)


lemma map_of_obj_set: "map_of (obj_set kvs k v) k = Some v"
  by (induction kvs) auto













subsection \<open>Calls and labels of the operations\<close>

paragraph \<open>Sets of labels\<close>







paragraph \<open>The fields of the update\<close>

lemma map_of_obj_delete: "k' \<noteq> k \<Longrightarrow> map_of (obj_delete kvs k) k' = map_of kvs k'"
  by (induction kvs) (auto simp: obj_delete_def)

lemma obj_set_not_Nil: "obj_set kvs k v \<noteq> []"
  by (cases kvs) (auto split: if_splits)

lemma merge_labels_result:
  assumes "merge_labels fields' existing = Inr (fw, statusField)"
  shows "\<exists>new. spread_elements
                 (or_else (member (JObj (if truthy fields' then entries fields' else [])) ''labels'')
                    (JArr [])) = Inr new
              \<and> member (JObj fw) ''labels'' = JArr (new_Set (existing @ new))"
proof -
  let ?f0 = "if truthy fields' then entries fields' else []"
  obtain new where new: "spread_elements (or_else (member (JObj ?f0) ''labels'') (JArr [])) = Inr new"
    using assms by (cases "spread_elements (or_else (member (JObj ?f0) ''labels'') (JArr []))")
      (auto simp: merge_labels_def Let_def)
  let ?w = "obj_set ?f0 ''labels'' (JArr (new_Set (existing @ new)))"
  from assms new have fw: "fw = (if truthy (member (JObj ?w) ''status'') then obj_delete ?w ''status'' else ?w)"
    by (auto simp: merge_labels_def Let_def)
  have "map_of fw ''labels'' = Some (JArr (new_Set (existing @ new)))"
    unfolding fw by (simp add: map_of_obj_set map_of_obj_delete)
  with new show ?thesis by auto
qed


lemma merge_labels_not_Nil:
  assumes "merge_labels fields' existing = Inr (fw, statusField)"
  shows "fw \<noteq> []"
  using merge_labels_result [OF assms] by auto


paragraph \<open>The calls of the operations\<close>

lemma start_requests_Cons:
  "start_requests srv (c # cs) tr =
     ((settled_at srv tr c, respond srv tr c) # fst (start_requests srv cs (tr @ [c])),
      snd (start_requests srv cs (tr @ [c])))"
  by (simp split: prod.splits)

lemma start_requests_calls: "snd (start_requests srv cs tr) = tr @ cs"
  by (induction cs arbitrary: tr) (simp_all add: start_requests_Cons del: start_requests.simps(2))

lemma start_requests_length: "length (fst (start_requests srv cs tr)) = length cs"
  by (induction cs arbitrary: tr) (simp_all add: start_requests_Cons del: start_requests.simps(2))

lemma start_requests_nth:
  "i < length cs \<Longrightarrow>
     fst (start_requests srv cs tr) ! i
       = (settled_at srv (tr @ take i cs) (cs ! i), respond srv (tr @ take i cs) (cs ! i))"
proof (induction cs arbitrary: tr i)
  case Nil
  then show ?case by simp
next
  case (Cons c cs)
  show ?case
  proof (cases i)
    case 0
    then show ?thesis by (simp add: start_requests_Cons del: start_requests.simps(2))
  next
    case (Suc k)
    with Cons.prems have "k < length cs" by simp
    from Cons.IH [OF this, of "tr @ [c]"] Suc show ?thesis
      by (simp add: start_requests_Cons del: start_requests.simps(2))
  qed
qed

lemma first_rejection_None:
  "first_rejection ps = None \<longleftrightarrow> (\<forall>p \<in> set ps. \<exists>v. snd p = Inr v)"
proof (induction ps rule: first_rejection.induct)
  case 1
  then show ?case by simp
next
  case (2 t v ps)
  then show ?case by simp
next
  case (3 t e ps)
  then show ?case by (auto split: option.splits)
qed

lemma first_rejection_Some:
  "first_rejection ps = Some (t, e) \<Longrightarrow>
     (t, Inl e) \<in> set ps \<and> (\<forall>t' e'. (t', Inl e') \<in> set ps \<longrightarrow> t \<le> t')"
proof (induction ps arbitrary: t e rule: first_rejection.induct)
  case 1
  then show ?case by simp
next
  case (2 t0 v ps)
  then show ?case by auto
next
  case (3 t0 e0 ps)
  show ?case
  proof (cases "first_rejection ps")
    case None
    with "3.prems" have te: "t = t0" "e = e0" by simp_all
    from None have "\<forall>p \<in> set ps. \<exists>v. snd p = Inr v" by (simp add: first_rejection_None)
    then have "\<And>t' e'. (t', Inl e') \<in> set ps \<Longrightarrow> False" by force
    with te show ?thesis by auto
  next
    case (Some p)
    obtain t1 e1 where p: "p = (t1, e1)" by (cases p)
    from "3.IH" [of t1 e1] Some p
    have ih: "(t1, Inl e1) \<in> set ps" "\<forall>t' e'. (t', Inl e') \<in> set ps \<longrightarrow> t1 \<le> t'" by auto
    show ?thesis
    proof (cases "t1 < t0")
      case True
      with "3.prems" Some p have "t = t1" "e = e1" by simp_all
      with ih True show ?thesis by auto
    next
      case False
      with "3.prems" Some p have "t = t0" "e = e0" by simp_all
      with ih False show ?thesis by fastforce
    qed
  qed
qed

lemma create_links_calls:
  "snd (create_links srv (Some links) tr) = tr @ map link_call links"
proof (cases links)
  case Nil
  then show ?thesis by (simp add: create_links_def)
next
  case (Cons l ls)
  obtain ps tr' where s: "start_requests srv (map link_call links) tr = (ps, tr')"
    by (cases "start_requests srv (map link_call links) tr")
  then have "tr' = tr @ map link_call links"
    using start_requests_calls [of srv "map link_call links" tr] by simp
  with Cons s show ?thesis
    by (simp add: create_links_def split: sum.splits)
qed

lemma create_links_result:
  assumes "links \<noteq> []"
  shows "fst (create_links srv (Some links) tr) =
           (case first_rejection (fst (start_requests srv (map link_call links) tr)) of
              Some (t, e) \<Rightarrow> Inl e | None \<Rightarrow> Inr ())"
proof -
  obtain ps tr' where s: "start_requests srv (map link_call links) tr = (ps, tr')"
    by (cases "start_requests srv (map link_call links) tr")
  with assms show ?thesis
    by (auto simp: create_links_def Promise_all_def split: option.splits sum.splits)
qed

lemma addJiraComment_calls:
  "snd (addJiraComment srv issueIdOrKey comment tr) = tr @ [comment_call issueIdOrKey comment]"
  by (simp add: addJiraComment_def await_jiraRequest_def comment_call_def split: sum.splits)

lemma add_transition_comment_calls:
  "snd (add_transition_comment srv issueIdOrKey comment tr) =
     tr @ (if truthy comment then [comment_call issueIdOrKey (JObj [(''body'', comment)])] else [])"
proof (cases "truthy comment")
  case True
  obtain res tr' where a: "addJiraComment srv issueIdOrKey (JObj [(''body'', comment)]) tr = (res, tr')"
    by (cases "addJiraComment srv issueIdOrKey (JObj [(''body'', comment)]) tr")
  then have "tr' = tr @ [comment_call issueIdOrKey (JObj [(''body'', comment)])]"
    using addJiraComment_calls [of srv issueIdOrKey "JObj [(''body'', comment)]" tr] by simp
  with True a show ?thesis
    by (simp add: add_transition_comment_def split: sum.splits)
next
  case False
  then show ?thesis by (simp add: add_transition_comment_def)
qed

lemma transitionJiraStatus_calls:
  "\<exists>rest. snd (transitionJiraStatus srv issueIdOrKey transitionId comment resolution fields' tr)
      = tr @ transition_call issueIdOrKey transitionId resolution fields' # rest
     \<and> set rest \<subseteq> {comment_call issueIdOrKey (JObj [(''body'', comment)])}"
proof (cases "respond srv tr (transition_call issueIdOrKey transitionId resolution fields')")
  case (Inl e)
  then show ?thesis
    by (simp add: transitionJiraStatus_def Let_def await_jiraRequest_def transition_call_def)
next
  case (Inr v)
  let ?c1 = "transition_call issueIdOrKey transitionId resolution fields'"
  obtain sc tr'' where a: "add_transition_comment srv issueIdOrKey comment (tr @ [?c1]) = (sc, tr'')"
    by (cases "add_transition_comment srv issueIdOrKey comment (tr @ [?c1])")
  then have t: "tr'' = (tr @ [?c1])
        @ (if truthy comment then [comment_call issueIdOrKey (JObj [(''body'', comment)])] else [])"
    using add_transition_comment_calls [of srv issueIdOrKey comment "tr @ [?c1]"] by simp
  from Inr a have "snd (transitionJiraStatus srv issueIdOrKey transitionId comment resolution fields' tr) = tr''"
    by (simp add: transitionJiraStatus_def Let_def await_jiraRequest_def transition_call_def
        split: prod.splits)
  with t show ?thesis by auto
qed

lemma transitionJiraStatus_status_calls:
  "\<exists>rest. snd (transitionJiraStatus srv issueIdOrKey transitionId comment resolution fields' tr)
      = tr @ rest \<and> (\<forall>c \<in> set rest. status_step_call c)"
proof -
  obtain rest where
    "snd (transitionJiraStatus srv issueIdOrKey transitionId comment resolution fields' tr)
      = tr @ transition_call issueIdOrKey transitionId resolution fields' # rest"
    "set rest \<subseteq> {comment_call issueIdOrKey (JObj [(''body'', comment)])}"
    using transitionJiraStatus_calls by blast
  then show ?thesis
    by (intro exI [of _ "transition_call issueIdOrKey transitionId resolution fields' # rest"])
      (auto simp: status_step_call_def transition_call_def comment_call_def)
qed

lemma transitionJiraStatusByName_status_calls:
  "\<exists>rest. snd (transitionJiraStatusByName srv issueIdOrKey statusName comment resolution
                 additionalFields tr)
      = tr @ rest \<and> (\<forall>c \<in> set rest. status_step_call c)"
proof -
  let ?c0 = "transitions_call issueIdOrKey"
  have c0: "status_step_call ?c0"
    by (simp add: status_step_call_def transitions_call_def no_options_def)
  show ?thesis
  proof (cases "respond srv tr ?c0")
    case (Inl e)
    then have "snd (transitionJiraStatusByName srv issueIdOrKey statusName comment resolution
                 additionalFields tr) = tr @ [?c0]"
      by (simp add: transitionJiraStatusByName_def await_jiraRequest_def transitions_call_def)
    with c0 show ?thesis by simp
  next
    case (Inr resp)
    have "\<exists>rest. snd (transition_by_name_found srv issueIdOrKey statusName comment resolution
                 additionalFields resp (tr @ [?c0])) = (tr @ [?c0]) @ rest
              \<and> (\<forall>c \<in> set rest. status_step_call c)"
    proof (cases "\<exists>tid. snd (transition_by_name_found srv issueIdOrKey statusName comment resolution
                 additionalFields resp (tr @ [?c0]))
               = snd (transitionJiraStatus srv issueIdOrKey tid comment resolution
                      additionalFields (tr @ [?c0]))")
      case True
      then show ?thesis using transitionJiraStatus_status_calls by metis
    next
      case False
      then have "snd (transition_by_name_found srv issueIdOrKey statusName comment resolution
                 additionalFields resp (tr @ [?c0])) = tr @ [?c0]"
        by (auto simp: transition_by_name_found_def split: sum.splits js.splits if_splits)
      then show ?thesis by simp
    qed
    then obtain rest where r: "snd (transition_by_name_found srv issueIdOrKey statusName comment
                 resolution additionalFields resp (tr @ [?c0])) = (tr @ [?c0]) @ rest"
        "\<forall>c \<in> set rest. status_step_call c" by blast
    from Inr have "snd (transitionJiraStatusByName srv issueIdOrKey statusName comment resolution
                 additionalFields tr)
        = snd (transition_by_name_found srv issueIdOrKey statusName comment
                 resolution additionalFields resp (tr @ [?c0]))"
      by (simp add: transitionJiraStatusByName_def await_jiraRequest_def transitions_call_def
          split: prod.splits sum.splits)
    with r c0 show ?thesis by (intro exI [of _ "?c0 # rest"]) simp
  qed
qed

lemma finish_update_calls:
  "\<exists>rest. snd (finish_update srv issueIdOrKey statusField tr) = tr @ rest
     \<and> (\<forall>c \<in> set rest. status_step_call c)"
proof (cases "truthy statusField")
  case False
  then show ?thesis by (simp add: finish_update_def)
next
  case True
  obtain rest where
    "snd (transitionJiraStatusByName srv issueIdOrKey (member statusField ''name'')
            (member statusField ''comment'') (member statusField ''resolution'') JUndefined tr)
       = tr @ rest" "\<forall>c \<in> set rest. status_step_call c"
    using transitionJiraStatusByName_status_calls by blast
  with True show ?thesis
    by (auto simp: finish_update_def split: prod.splits sum.splits)
qed

lemma update_fetched_unfold:
  assumes "existingLabelNames cur = Inr existing"
    and "merge_labels fields' existing = Inr (fw, statusField)"
  shows "update_fetched srv issueIdOrKey fields' update' linkedIssues cur tr =
     (case respond srv tr (put_call issueIdOrKey fw update') of
        Inl e \<Rightarrow> (Inl e, tr @ [put_call issueIdOrKey fw update'])
      | Inr v \<Rightarrow>
          (case create_links srv linkedIssues (tr @ [put_call issueIdOrKey fw update']) of
             (Inl e, tr'') \<Rightarrow> (Inl e, tr'')
           | (Inr u, tr'') \<Rightarrow> finish_update srv issueIdOrKey statusField tr''))"
  using assms merge_labels_not_Nil [OF assms(2)]
  by (simp add: update_fetched_def await_jiraRequest_def split: sum.splits)


lemma updateJiraIssue_fetched:
  "respond srv tr (labels_call issueIdOrKey) = Inr cur \<Longrightarrow>
     updateJiraIssue srv issueIdOrKey fields' update' linkedIssues tr
       = (case update_fetched srv issueIdOrKey fields' update' linkedIssues cur
                 (tr @ [labels_call issueIdOrKey]) of
            (Inl e, tr'') \<Rightarrow> (Inr (handleOperationError e ''updating issue''), tr'')
          | (Inr result, tr'') \<Rightarrow> (Inr result, tr''))"
  by (simp add: updateJiraIssue_def await_jiraRequest_def)



lemma updateJiraIssue_link_rejected:
  assumes "respond srv tr (labels_call issueIdOrKey) = Inr cur"
    and "existingLabelNames cur = Inr existing"
    and "merge_labels fields' existing = Inr (fw, statusField)"
    and "respond srv (tr @ [labels_call issueIdOrKey]) (put_call issueIdOrKey fw update') = Inr v"
    and "links \<noteq> []"
    and "first_rejection (fst (start_requests srv (map link_call links)
            (tr @ [labels_call issueIdOrKey, put_call issueIdOrKey fw update']))) = Some (t, e)"
  shows "updateJiraIssue srv issueIdOrKey fields' update' (Some links) tr
       = (Inr (handleOperationError e ''updating issue''),
          tr @ [labels_call issueIdOrKey, put_call issueIdOrKey fw update'] @ map link_call links)"
proof -
  let ?tr2 = "tr @ [labels_call issueIdOrKey, put_call issueIdOrKey fw update']"
  have "fst (create_links srv (Some links) ?tr2) = Inl e"
    using create_links_result [OF assms(5), of srv ?tr2] assms(6) by simp
  moreover have "snd (create_links srv (Some links) ?tr2) = ?tr2 @ map link_call links"
    by (rule create_links_calls)
  ultimately have "create_links srv (Some links) ?tr2 = (Inl e, ?tr2 @ map link_call links)"
    by (simp add: prod_eq_iff)
  with assms(1-4) show ?thesis
    by (simp add: updateJiraIssue_fetched update_fetched_unfold)
qed

lemma updateJiraIssue_calls:
  assumes "respond srv tr (labels_call issueIdOrKey) = Inr cur"
    and "existingLabelNames cur = Inr existing"
    and "merge_labels fields' existing = Inr (fw, statusField)"
    and "respond srv (tr @ [labels_call issueIdOrKey]) (put_call issueIdOrKey fw update') = Inr v"
  shows "\<exists>rest. snd (updateJiraIssue srv issueIdOrKey fields' update' linkedIssues tr)
           = tr @ [labels_call issueIdOrKey, put_call issueIdOrKey fw update']
               @ (case linkedIssues of None \<Rightarrow> [] | Some links \<Rightarrow> map link_call links) @ rest
         \<and> (\<forall>c \<in> set rest. status_step_call c)"
proof -
  let ?tr2 = "tr @ [labels_call issueIdOrKey, put_call issueIdOrKey fw update']"
  let ?ls = "case linkedIssues of None \<Rightarrow> [] | Some links \<Rightarrow> map link_call links"
  have cl: "snd (create_links srv linkedIssues ?tr2) = ?tr2 @ ?ls"
    by (cases linkedIssues) (simp_all add: create_links_calls, simp add: create_links_def)
  obtain res where res: "create_links srv linkedIssues ?tr2 = (res, ?tr2 @ ?ls)"
    using cl by (cases "create_links srv linkedIssues ?tr2") simp
  show ?thesis
  proof (cases res)
    case (Inl e)
    with res assms have "snd (updateJiraIssue srv issueIdOrKey fields' update' linkedIssues tr)
        = ?tr2 @ ?ls"
      by (simp add: updateJiraIssue_fetched update_fetched_unfold)
    then show ?thesis by simp
  next
    case (Inr u)
    obtain rest where r: "snd (finish_update srv issueIdOrKey statusField (?tr2 @ ?ls))
        = (?tr2 @ ?ls) @ rest" "\<forall>c \<in> set rest. status_step_call c"
      using finish_update_calls by blast
    from Inr res assms have "snd (updateJiraIssue srv issueIdOrKey fields' update' linkedIssues tr)
        = snd (finish_update srv issueIdOrKey statusField (?tr2 @ ?ls))"
      by (simp add: updateJiraIssue_fetched update_fetched_unfold split: prod.splits sum.splits)
    with r show ?thesis by auto
  qed
qed

subsection \<open>Status transitions\<close>

lemma obj_spread_Nil [simp]: "obj_spread a [] = a"
  by (simp add: obj_spread_def)

lemma createTransitionRequestBody_shape:
  "createTransitionRequestBody transitionId resolution additionalFields =
     JObj ((''transition'', JObj [(''id'', transitionId)])
           # (if truthy resolution \<or> truthy additionalFields
              then [(''fields'',
                     JObj (obj_spread (if truthy resolution then [(''resolution'', resolution)] else [])
                             (if truthy additionalFields then entries additionalFields else [])))]
              else []))"
  by (simp add: createTransitionRequestBody_def Let_def)

text \<open>
  Claim C1, as amended. \<open>transitionJiraStatus\<close> first posts to the transitions endpoint a
  body that holds the transition id and, when a resolution or fields are given, the fields
  made of them, and never the comment. If that request fails, the result is an error
  payload and no further request is made. If it succeeds, then the comment is added by a
  separate request exactly when the comment is truthy, which for a string means not empty;
  and the result has \<open>success: true\<close> and carries the response of the transition, whatever
  becomes of the comment.
\<close>

theorem transitionJiraStatus_two_steps:
  "(\<exists>rest. snd (transitionJiraStatus srv issueIdOrKey transitionId comment resolution fields' tr)
        = tr @ transition_call issueIdOrKey transitionId resolution fields' # rest)
   \<and> body (snd (transition_call issueIdOrKey transitionId resolution fields')) =
       JObj ((''transition'', JObj [(''id'', transitionId)])
             # (if truthy resolution \<or> truthy fields'
                then [(''fields'',
                       JObj (obj_spread (if truthy resolution then [(''resolution'', resolution)] else [])
                               (if truthy fields' then entries fields' else [])))]
                else []))
   \<and> (\<forall>e. respond srv tr (transition_call issueIdOrKey transitionId resolution fields') = Inl e \<longrightarrow>
         transitionJiraStatus srv issueIdOrKey transitionId comment resolution fields' tr
           = (Inr (handleOperationError e ''transitioning status''),
              tr @ [transition_call issueIdOrKey transitionId resolution fields']))
   \<and> (\<forall>v. respond srv tr (transition_call issueIdOrKey transitionId resolution fields') = Inr v \<longrightarrow>
         snd (transitionJiraStatus srv issueIdOrKey transitionId comment resolution fields' tr)
           = tr @ transition_call issueIdOrKey transitionId resolution fields'
                # (if truthy comment
                   then [comment_call issueIdOrKey (JObj [(''body'', comment)])] else [])
         \<and> (\<exists>p. fst (transitionJiraStatus srv issueIdOrKey transitionId comment resolution fields' tr)
                  = Inr p
                \<and> member p ''success'' = JBool True
                \<and> member (member p ''data'') ''transition'' = v))
   \<and> (\<forall>c. truthy (JStr c) = (c \<noteq> []))"
proof -
  let ?c1 = "transition_call issueIdOrKey transitionId resolution fields'"
  let ?c2 = "comment_call issueIdOrKey (JObj [(''body'', comment)])"
  let ?run = "transitionJiraStatus srv issueIdOrKey transitionId comment resolution fields' tr"
  have fail: "\<forall>e. respond srv tr ?c1 = Inl e \<longrightarrow>
      ?run = (Inr (handleOperationError e ''transitioning status''), tr @ [?c1])"
    by (simp add: transitionJiraStatus_def Let_def await_jiraRequest_def transition_call_def)
  have okay: "\<forall>v. respond srv tr ?c1 = Inr v \<longrightarrow>
      snd ?run = tr @ ?c1 # (if truthy comment then [?c2] else [])
      \<and> (\<exists>p. fst ?run = Inr p \<and> member p ''success'' = JBool True
             \<and> member (member p ''data'') ''transition'' = v)"
  proof (intro allI impI)
    fix v assume v: "respond srv tr ?c1 = Inr v"
    obtain sfx cr tr'' where a:
      "add_transition_comment srv issueIdOrKey comment (tr @ [?c1]) = ((sfx, cr), tr'')"
      by (cases "add_transition_comment srv issueIdOrKey comment (tr @ [?c1])") auto
    then have t: "tr'' = (tr @ [?c1]) @ (if truthy comment then [?c2] else [])"
      using add_transition_comment_calls [of srv issueIdOrKey comment "tr @ [?c1]"]
      by (simp add: comment_call_def)
    from v a have r: "?run = (Inr (formatResponse True
                       (''Successfully transitioned status of issue '' @ issueIdOrKey @ sfx)
                       (JObj [(''transition'', v), (''comment'', cr)])), tr'')"
      by (simp add: transitionJiraStatus_def Let_def await_jiraRequest_def transition_call_def)
    show "snd ?run = tr @ ?c1 # (if truthy comment then [?c2] else [])
      \<and> (\<exists>p. fst ?run = Inr p \<and> member p ''success'' = JBool True
             \<and> member (member p ''data'') ''transition'' = v)"
      unfolding r using t by (simp add: formatResponse_def)
  qed
  have first: "\<exists>rest. snd ?run = tr @ ?c1 # rest"
  proof (cases "respond srv tr ?c1")
    case (Inl e)
    with fail show ?thesis by simp
  next
    case (Inr v)
    with okay show ?thesis by simp
  qed
  have shape: "body (snd ?c1) =
       JObj ((''transition'', JObj [(''id'', transitionId)])
             # (if truthy resolution \<or> truthy fields'
                then [(''fields'',
                       JObj (obj_spread (if truthy resolution then [(''resolution'', resolution)] else [])
                               (if truthy fields' then entries fields' else [])))]
                else []))"
    by (simp add: transition_call_def createTransitionRequestBody_shape)
  have str: "\<forall>c. truthy (JStr c) = (c \<noteq> [])" by simp
  from first shape fail okay str show ?thesis by blast
qed

text \<open>The theorem at a transition that succeeds and a comment that is rejected.\<close>

theorem transitionJiraStatus_two_steps_witness:
  "respond comment_rejecting_server [] (transition_call ''PROJ-1'' (JStr ''31'') JUndefined JUndefined)
     = Inr (JObj [])
   \<and> transitionJiraStatus comment_rejecting_server ''PROJ-1'' (JStr ''31'') (JStr ''Done.'')
       JUndefined JUndefined []
     = (Inr (formatResponse True
               ''Successfully transitioned status of issue PROJ-1 but failed to add comment: fetch failed''
               (JObj [(''transition'', JObj []),
                      (''comment'',
                       JObj [(''success'', JBool False), (''message'', JStr ''fetch failed''),
                             (''error'', error_object (new_Error ''fetch failed''))])])),
        [transition_call ''PROJ-1'' (JStr ''31'') JUndefined JUndefined,
         comment_call ''PROJ-1'' (JObj [(''body'', JStr ''Done.'')])])"
proof -
  have evaluated:
    "respond comment_rejecting_server [] (transition_call ''PROJ-1'' (JStr ''31'') JUndefined JUndefined)
     = Inr (JObj [])
   \<and> transitionJiraStatus comment_rejecting_server ''PROJ-1'' (JStr ''31'') (JStr ''Done.'')
       JUndefined JUndefined []
     = (Inr (formatResponse True
               ''Successfully transitioned status of issue PROJ-1 but failed to add comment: fetch failed''
               (JObj [(''transition'', JObj []),
                      (''comment'',
                       JObj [(''success'', JBool False), (''message'', JStr ''fetch failed''),
                             (''error'', error_object (new_Error ''fetch failed''))])])),
        [transition_call ''PROJ-1'' (JStr ''31'') JUndefined JUndefined,
         comment_call ''PROJ-1'' (JObj [(''body'', JStr ''Done.'')])])"
    by code_simp
  then show ?thesis
    using transitionJiraStatus_two_steps [of comment_rejecting_server "''PROJ-1''" "JStr ''31''"
        "JStr ''Done.''" JUndefined JUndefined "[]"]
    by simp
qed

text \<open>
  Claim C1 as stated fails for the empty comment: a comment string is supplied, the
  transition succeeds, and no request to add a comment is made.
\<close>

theorem transitionJiraStatus_counterexample:
  "transitionJiraStatus accepting_server ''PROJ-1'' (JStr ''31'') (JStr []) JUndefined JUndefined []
     = (Inr (formatResponse True ''Successfully transitioned status of issue PROJ-1''
               (JObj [(''transition'', JObj []), (''comment'', JNull)])),
        [transition_call ''PROJ-1'' (JStr ''31'') JUndefined JUndefined])"
  by code_simp

subsection \<open>Failures of the operations\<close>











subsection \<open>Search\<close>

lemma issue_key_test_iff:
  "issue_key_test s \<longleftrightarrow>
     (\<exists>ls ds. s = ls @ ''-'' @ ds \<and> ls \<noteq> [] \<and> list_all is_upper ls
              \<and> ds \<noteq> [] \<and> list_all is_digit ds)"
proof
  assume t: "issue_key_test s"
  then obtain c ds where d: "dropWhile is_upper s = c # ds"
    by (cases "dropWhile is_upper s") (auto simp: issue_key_test_def)
  with t have c: "c = CHR ''-''" "ds \<noteq> []" "list_all is_digit ds" "takeWhile is_upper s \<noteq> []"
    by (auto simp: issue_key_test_def)
  have "s = takeWhile is_upper s @ dropWhile is_upper s" by simp
  with d c have "s = takeWhile is_upper s @ ''-'' @ ds" by simp
  moreover have "list_all is_upper (takeWhile is_upper s)"
    by (auto simp: list_all_iff dest: set_takeWhileD)
  ultimately show "\<exists>ls ds. s = ls @ ''-'' @ ds \<and> ls \<noteq> [] \<and> list_all is_upper ls
              \<and> ds \<noteq> [] \<and> list_all is_digit ds"
    using c by blast
next
  assume "\<exists>ls ds. s = ls @ ''-'' @ ds \<and> ls \<noteq> [] \<and> list_all is_upper ls
              \<and> ds \<noteq> [] \<and> list_all is_digit ds"
  then obtain ls ds where s: "s = ls @ ''-'' @ ds" and ls: "ls \<noteq> []" "list_all is_upper ls"
    and ds: "ds \<noteq> []" "list_all is_digit ds" by blast
  have dash: "\<not> is_upper CHR ''-''" by (simp add: is_upper_def)
  from ls(2) have all: "\<And>x. x \<in> set ls \<Longrightarrow> is_upper x" by (simp add: list_all_iff)
  from all dash have "takeWhile is_upper s = ls" unfolding s
    by (simp add: takeWhile_append2)
  moreover from all dash have "dropWhile is_upper s = ''-'' @ ds" unfolding s
    by (simp add: dropWhile_append2)
  ultimately show "issue_key_test s"
    using ls ds by (simp add: issue_key_test_def)
qed

text \<open>
  Claim C8. When the query has the form of an issue key (capital letters, a hyphen,
  digits), the first request of \<open>searchJiraIssues\<close> is the direct fetch of that issue. If
  it succeeds, the result is the one issue with \<open>total\<close> and \<open>maxResults\<close> 1 and no other
  request is made; if it fails, the operation goes on as the regular search does, which
  requests the search URL (or throws what \<open>buildUrl\<close> throws).
\<close>

theorem searchJiraIssues_direct_fetch_first:
  assumes "issue_key_test (jql params)"
  shows
   "(\<exists>rest. snd (searchJiraIssues h cfg srv params tr) = tr @ issue_call (jql params) # rest)
    \<and> (\<forall>issue. respond srv tr (issue_call (jql params)) = Inr issue \<longrightarrow>
          searchJiraIssues h cfg srv params tr
            = (Inr (JObj [(''issues'', JArr [issue]), (''total'', JNum 1), (''maxResults'', JNum 1)]),
               tr @ [issue_call (jql params)]))
    \<and> (\<forall>e. respond srv tr (issue_call (jql params)) = Inl e \<longrightarrow>
          searchJiraIssues h cfg srv params tr
            = jql_search h cfg srv params (tr @ [issue_call (jql params)]))
    \<and> (\<forall>tr' url. buildUrl h cfg ''search'' (search_params params) = Inr url \<longrightarrow>
          jql_search h cfg srv params tr' = (respond srv tr' (url, no_options), tr' @ [(url, no_options)]))
    \<and> (\<forall>tr' e. buildUrl h cfg ''search'' (search_params params) = Inl e \<longrightarrow>
          jql_search h cfg srv params tr' = (Inl e, tr'))
    \<and> (\<exists>ls ds. jql params = ls @ ''-'' @ ds \<and> ls \<noteq> [] \<and> list_all is_upper ls
              \<and> ds \<noteq> [] \<and> list_all is_digit ds)"
proof -
  let ?c = "issue_call (jql params)"
  let ?run = "searchJiraIssues h cfg srv params tr"
  have A: "\<forall>issue. respond srv tr ?c = Inr issue \<longrightarrow>
          ?run = (Inr (JObj [(''issues'', JArr [issue]), (''total'', JNum 1), (''maxResults'', JNum 1)]),
               tr @ [?c])"
    using assms by (simp add: searchJiraIssues_def await_jiraRequest_def issue_call_def)
  have B: "\<forall>e. respond srv tr ?c = Inl e \<longrightarrow> ?run = jql_search h cfg srv params (tr @ [?c])"
    using assms by (simp add: searchJiraIssues_def await_jiraRequest_def issue_call_def)
  have C: "\<forall>tr' url. buildUrl h cfg ''search'' (search_params params) = Inr url \<longrightarrow>
          jql_search h cfg srv params tr' = (respond srv tr' (url, no_options), tr' @ [(url, no_options)])"
    by (simp add: jql_search_def await_jiraRequest_def)
  have D: "\<forall>tr' e. buildUrl h cfg ''search'' (search_params params) = Inl e \<longrightarrow>
          jql_search h cfg srv params tr' = (Inl e, tr')"
    by (simp add: jql_search_def)
  have F: "\<exists>rest. snd ?run = tr @ ?c # rest"
  proof (cases "respond srv tr ?c")
    case (Inr issue)
    with A show ?thesis by simp
  next
    case (Inl e)
    with B have r: "?run = jql_search h cfg srv params (tr @ [?c])" by simp
    show ?thesis
    proof (cases "buildUrl h cfg ''search'' (search_params params)")
      case (Inl e')
      with D r show ?thesis by simp
    next
      case (Inr url)
      with C r show ?thesis by simp
    qed
  qed
  from assms have G: "\<exists>ls ds. jql params = ls @ ''-'' @ ds \<and> ls \<noteq> [] \<and> list_all is_upper ls
              \<and> ds \<noteq> [] \<and> list_all is_digit ds"
    by (simp add: issue_key_test_iff)
  from A B C D F G show ?thesis by blast
qed

text \<open>The theorem at the key \<open>AIF-17\<close>, with a server that accepts and one that rejects.\<close>

theorem searchJiraIssues_direct_fetch_first_witness:
  "issue_key_test (jql \<lparr>jql = ''AIF-17'', startAt = None, maxResults = Some 10, search_fields = None,
                        expand = None, properties = None, fieldsByKeys = None\<rparr>)
   \<and> searchJiraIssues plain_host example_config accepting_server
        \<lparr>jql = ''AIF-17'', startAt = None, maxResults = Some 10, search_fields = None,
         expand = None, properties = None, fieldsByKeys = None\<rparr> []
      = (Inr (JObj [(''issues'', JArr [JObj []]), (''total'', JNum 1), (''maxResults'', JNum 1)]),
         [issue_call ''AIF-17''])
   \<and> searchJiraIssues plain_host example_config rejecting_server
        \<lparr>jql = ''AIF-17'', startAt = None, maxResults = Some 10, search_fields = None,
         expand = None, properties = None, fieldsByKeys = None\<rparr> []
      = (Inl (new_Error ''fetch failed''),
         [issue_call ''AIF-17'',
          (''https://jira.example.com/rest/api/2/search?jql=AIF-17&maxResults=10'', no_options)])"
proof -
  have evaluated:
    "issue_key_test (jql \<lparr>jql = ''AIF-17'', startAt = None, maxResults = Some 10, search_fields = None,
                        expand = None, properties = None, fieldsByKeys = None\<rparr>)
   \<and> searchJiraIssues plain_host example_config accepting_server
        \<lparr>jql = ''AIF-17'', startAt = None, maxResults = Some 10, search_fields = None,
         expand = None, properties = None, fieldsByKeys = None\<rparr> []
      = (Inr (JObj [(''issues'', JArr [JObj []]), (''total'', JNum 1), (''maxResults'', JNum 1)]),
         [issue_call ''AIF-17''])
   \<and> searchJiraIssues plain_host example_config rejecting_server
        \<lparr>jql = ''AIF-17'', startAt = None, maxResults = Some 10, search_fields = None,
         expand = None, properties = None, fieldsByKeys = None\<rparr> []
      = (Inl (new_Error ''fetch failed''),
         [issue_call ''AIF-17'',
          (''https://jira.example.com/rest/api/2/search?jql=AIF-17&maxResults=10'', no_options)])"
    by code_simp
  then have k: "issue_key_test (jql \<lparr>jql = ''AIF-17'', startAt = None, maxResults = Some 10,
                        search_fields = None, expand = None, properties = None, fieldsByKeys = None\<rparr>)"
    by blast
  from evaluated show ?thesis
    using searchJiraIssues_direct_fetch_first [OF k, of plain_host example_config accepting_server "[]"]
    by simp
qed

subsection \<open>Linked issues\<close>

lemma status_step_call_not_link: "status_step_call c \<Longrightarrow> fst c \<noteq> ''issueLink''"
  by (auto simp: status_step_call_def)

lemma link_call_path: "fst (link_call l) = ''issueLink''"
  by (simp add: link_call_def)

lemma filter_link_calls:
  assumes "\<forall>c \<in> set rest. fst c \<noteq> ''issueLink''"
  shows "filter (\<lambda>c. fst c = ''issueLink'')
           ([labels_call issueIdOrKey, put_call issueIdOrKey fw update'] @ map link_call links @ rest)
         = map link_call links"
proof -
  have a: "filter (\<lambda>c. fst c = ''issueLink'') (map link_call links) = map link_call links"
    by (induction links) (simp_all add: link_call_path)
  have b: "filter (\<lambda>c. fst c = ''issueLink'') rest = []"
    using assms by (simp add: filter_empty_conv)
  show ?thesis
    by (simp add: a b labels_call_def put_call_def)
qed

text \<open>
  Claim C6, as amended. When the fetch of the labels and the update of the fields have
  succeeded and the list of linked issues is not empty, the requests to \<open>issueLink\<close> made
  by \<open>updateJiraIssue\<close> are exactly one per element of the list, in order, each a POST
  carrying the type of its element, \<open>fromIssueKey\<close> as the outward and \<open>toIssueKey\<close> as the
  inward issue; all are started one after the other, none awaited (the promise of each is
  what its request settles to); and if any is rejected, the operation returns the single
  error payload of the rejection that settles first, and makes no further request.
\<close>

theorem updateJiraIssue_links:
  assumes "respond srv tr (labels_call issueIdOrKey) = Inr cur"
    and "existingLabelNames cur = Inr existing"
    and "merge_labels fields' existing = Inr (fw, statusField)"
    and "respond srv (tr @ [labels_call issueIdOrKey]) (put_call issueIdOrKey fw update') = Inr v"
    and "links \<noteq> []"
  shows
   "filter (\<lambda>c. fst c = ''issueLink'')
      (drop (length tr) (snd (updateJiraIssue srv issueIdOrKey fields' update' (Some links) tr)))
      = map link_call links
    \<and> (\<exists>rest. snd (updateJiraIssue srv issueIdOrKey fields' update' (Some links) tr)
          = tr @ [labels_call issueIdOrKey, put_call issueIdOrKey fw update']
              @ map link_call links @ rest)
    \<and> (\<forall>l. link_call l =
          (''issueLink'',
           \<lparr>http_method = Some ''POST'',
            body = JObj [(''type'', JObj [(''name'', JStr (link_type l))]),
                         (''outwardIssue'', JObj [(''key'', JStr (fromIssueKey l))]),
                         (''inwardIssue'', JObj [(''key'', JStr (toIssueKey l))])],
            headers = []\<rparr>))
    \<and> (\<forall>i < length links.
          fst (start_requests srv (map link_call links)
                 (tr @ [labels_call issueIdOrKey, put_call issueIdOrKey fw update'])) ! i
          = (settled_at srv (tr @ [labels_call issueIdOrKey, put_call issueIdOrKey fw update']
                               @ map link_call (take i links)) (link_call (links ! i)),
             respond srv (tr @ [labels_call issueIdOrKey, put_call issueIdOrKey fw update']
                               @ map link_call (take i links)) (link_call (links ! i))))
    \<and> ((\<exists>p \<in> set (fst (start_requests srv (map link_call links)
                  (tr @ [labels_call issueIdOrKey, put_call issueIdOrKey fw update']))).
           \<exists>e. snd p = Inl e) \<longrightarrow>
        (\<exists>t e. (t, Inl e) \<in> set (fst (start_requests srv (map link_call links)
                      (tr @ [labels_call issueIdOrKey, put_call issueIdOrKey fw update'])))
            \<and> (\<forall>t' e'. (t', Inl e') \<in> set (fst (start_requests srv (map link_call links)
                      (tr @ [labels_call issueIdOrKey, put_call issueIdOrKey fw update'])))
                  \<longrightarrow> t \<le> t')
            \<and> updateJiraIssue srv issueIdOrKey fields' update' (Some links) tr
                = (Inr (handleOperationError e ''updating issue''),
                   tr @ [labels_call issueIdOrKey, put_call issueIdOrKey fw update']
                      @ map link_call links)))"
proof -
  let ?tr2 = "tr @ [labels_call issueIdOrKey, put_call issueIdOrKey fw update']"
  let ?ps = "fst (start_requests srv (map link_call links) ?tr2)"
  let ?run = "updateJiraIssue srv issueIdOrKey fields' update' (Some links) tr"
  obtain rest where rest: "snd ?run = ?tr2 @ map link_call links @ rest"
    "\<forall>c \<in> set rest. status_step_call c"
    using updateJiraIssue_calls [OF assms(1-4), of "Some links"] by auto
  then have nl: "\<forall>c \<in> set rest. fst c \<noteq> ''issueLink''"
    using status_step_call_not_link by blast
  from rest(1) have d: "drop (length tr) (snd ?run)
      = [labels_call issueIdOrKey, put_call issueIdOrKey fw update'] @ map link_call links @ rest"
    by simp
  have A: "filter (\<lambda>c. fst c = ''issueLink'') (drop (length tr) (snd ?run)) = map link_call links"
    unfolding d using nl by (rule filter_link_calls)
  have B: "\<exists>rest. snd ?run = ?tr2 @ map link_call links @ rest"
    using rest(1) by blast
  have C: "\<forall>l. link_call l =
          (''issueLink'',
           \<lparr>http_method = Some ''POST'',
            body = JObj [(''type'', JObj [(''name'', JStr (link_type l))]),
                         (''outwardIssue'', JObj [(''key'', JStr (fromIssueKey l))]),
                         (''inwardIssue'', JObj [(''key'', JStr (toIssueKey l))])],
            headers = []\<rparr>)"
    by (simp add: link_call_def)
  have D: "\<forall>i < length links. ?ps ! i
          = (settled_at srv (?tr2 @ map link_call (take i links)) (link_call (links ! i)),
             respond srv (?tr2 @ map link_call (take i links)) (link_call (links ! i)))"
  proof (intro allI impI)
    fix i assume i: "i < length links"
    then have "i < length (map link_call links)" by simp
    from start_requests_nth [OF this, of srv ?tr2] i
    show "?ps ! i
          = (settled_at srv (?tr2 @ map link_call (take i links)) (link_call (links ! i)),
             respond srv (?tr2 @ map link_call (take i links)) (link_call (links ! i)))"
      by (simp add: take_map)
  qed
  have E: "(\<exists>p \<in> set ?ps. \<exists>e. snd p = Inl e) \<longrightarrow>
        (\<exists>t e. (t, Inl e) \<in> set ?ps \<and> (\<forall>t' e'. (t', Inl e') \<in> set ?ps \<longrightarrow> t \<le> t')
            \<and> ?run = (Inr (handleOperationError e ''updating issue''), ?tr2 @ map link_call links))"
  proof
    assume "\<exists>p \<in> set ?ps. \<exists>e. snd p = Inl e"
    then obtain p e0 where "p \<in> set ?ps" "snd p = Inl e0" by blast
    then have "\<not> (\<forall>p \<in> set ?ps. \<exists>v. snd p = Inr v)" by force
    then have "first_rejection ?ps \<noteq> None"
      by (simp only: first_rejection_None not_False_eq_True)
    then obtain t e where fr: "first_rejection ?ps = Some (t, e)" by auto
    from first_rejection_Some [OF fr]
    have "(t, Inl e) \<in> set ?ps" "\<forall>t' e'. (t', Inl e') \<in> set ?ps \<longrightarrow> t \<le> t'" by auto
    moreover from updateJiraIssue_link_rejected [OF assms fr]
    have "?run = (Inr (handleOperationError e ''updating issue''), ?tr2 @ map link_call links)"
      by simp
    ultimately show "\<exists>t e. (t, Inl e) \<in> set ?ps \<and> (\<forall>t' e'. (t', Inl e') \<in> set ?ps \<longrightarrow> t \<le> t')
            \<and> ?run = (Inr (handleOperationError e ''updating issue''), ?tr2 @ map link_call links)"
      by blast
  qed
  from A B C D E show ?thesis unfolding append_assoc by (intro conjI) assumption+
qed

text \<open>
  The theorem at two links that are both rejected, the second settling first: the one
  failure reported is the second's.
\<close>

theorem updateJiraIssue_links_witness:
  "respond link_rejecting_server [] (labels_call ''PROJ-1'') = Inr (JObj [])
   \<and> existingLabelNames (JObj []) = Inr []
   \<and> merge_labels JUndefined [] = Inr ([(''labels'', JArr [])], JUndefined)
   \<and> respond link_rejecting_server [labels_call ''PROJ-1'']
        (put_call ''PROJ-1'' [(''labels'', JArr [])] JUndefined) = Inr (JObj [])
   \<and> updateJiraIssue link_rejecting_server ''PROJ-1'' JUndefined JUndefined
        (Some [\<lparr>fromIssueKey = ''PROJ-1'', toIssueKey = ''PROJ-2'', link_type = ''Blocks''\<rparr>,
               \<lparr>fromIssueKey = ''PROJ-1'', toIssueKey = ''PROJ-3'', link_type = ''Relates''\<rparr>]) []
      = (Inr (formatResponse False ''Error updating issue: link rejected after 3 calls'' JUndefined),
         [labels_call ''PROJ-1'', put_call ''PROJ-1'' [(''labels'', JArr [])] JUndefined,
          link_call \<lparr>fromIssueKey = ''PROJ-1'', toIssueKey = ''PROJ-2'', link_type = ''Blocks''\<rparr>,
          link_call \<lparr>fromIssueKey = ''PROJ-1'', toIssueKey = ''PROJ-3'', link_type = ''Relates''\<rparr>])"
proof -
  have h1: "respond link_rejecting_server [] (labels_call ''PROJ-1'') = Inr (JObj [])"
    by code_simp
  have h2: "existingLabelNames (JObj []) = Inr []"
    by code_simp
  have h3: "merge_labels JUndefined [] = Inr ([(''labels'', JArr [])], JUndefined)"
    by code_simp
  have h4: "respond link_rejecting_server ([] @ [labels_call ''PROJ-1''])
        (put_call ''PROJ-1'' [(''labels'', JArr [])] JUndefined) = Inr (JObj [])"
    by code_simp
  have h5: "[\<lparr>fromIssueKey = ''PROJ-1'', toIssueKey = ''PROJ-2'', link_type = ''Blocks''\<rparr>,
             \<lparr>fromIssueKey = ''PROJ-1'', toIssueKey = ''PROJ-3'', link_type = ''Relates''\<rparr>] \<noteq> []"
    by simp
  have evaluated:
    "updateJiraIssue link_rejecting_server ''PROJ-1'' JUndefined JUndefined
        (Some [\<lparr>fromIssueKey = ''PROJ-1'', toIssueKey = ''PROJ-2'', link_type = ''Blocks''\<rparr>,
               \<lparr>fromIssueKey = ''PROJ-1'', toIssueKey = ''PROJ-3'', link_type = ''Relates''\<rparr>]) []
      = (Inr (formatResponse False ''Error updating issue: link rejected after 3 calls'' JUndefined),
         [labels_call ''PROJ-1'', put_call ''PROJ-1'' [(''labels'', JArr [])] JUndefined,
          link_call \<lparr>fromIssueKey = ''PROJ-1'', toIssueKey = ''PROJ-2'', link_type = ''Blocks''\<rparr>,
          link_call \<lparr>fromIssueKey = ''PROJ-1'', toIssueKey = ''PROJ-3'', link_type = ''Relates''\<rparr>])"
    by code_simp
  note links = updateJiraIssue_links [OF h1 h2 h3 h4 h5]
  from links have "\<exists>rest. snd (updateJiraIssue link_rejecting_server ''PROJ-1'' JUndefined JUndefined
        (Some [\<lparr>fromIssueKey = ''PROJ-1'', toIssueKey = ''PROJ-2'', link_type = ''Blocks''\<rparr>,
               \<lparr>fromIssueKey = ''PROJ-1'', toIssueKey = ''PROJ-3'', link_type = ''Relates''\<rparr>]) [])
      = [] @ [labels_call ''PROJ-1'', put_call ''PROJ-1'' [(''labels'', JArr [])] JUndefined]
          @ map link_call
              [\<lparr>fromIssueKey = ''PROJ-1'', toIssueKey = ''PROJ-2'', link_type = ''Blocks''\<rparr>,
               \<lparr>fromIssueKey = ''PROJ-1'', toIssueKey = ''PROJ-3'', link_type = ''Relates''\<rparr>] @ rest"
    by (elim conjE)
  with h1 h2 h3 h4 evaluated show ?thesis
    by simp
qed

text \<open>
  Claim C6 as stated fails when the fetch of the labels is rejected: the list of linked
  issues is not empty and no request to \<open>issueLink\<close> is made.
\<close>

theorem updateJiraIssue_links_counterexample:
  "updateJiraIssue rejecting_server ''PROJ-1'' JUndefined JUndefined
     (Some [\<lparr>fromIssueKey = ''PROJ-1'', toIssueKey = ''PROJ-2'', link_type = ''Blocks''\<rparr>]) []
   = (Inr (formatResponse False ''Error updating issue: fetch failed'' JUndefined),
      [labels_call ''PROJ-1''])"
  by code_simp

subsection \<open>Labels\<close>





end
